theory Spec2Isabelle
  imports Complex_Main "HOL-Library.Log_Nat"
begin

section \<open>Python numbers\<close>

text \<open>
  The program computes with Python \<open>int\<close> (unbounded) and \<open>float\<close> (IEEE binary64,
  round to nearest, ties to even). A float is modelled by the rational number it
  denotes; every float operation is the exact operation followed by \<open>fl\<close>, the rounding
  to 53 significant bits. The exponent range of binary64 is not modelled: there is no
  overflow (to infinity in a float operation, to \<open>OverflowError\<close> in \<open>int / int\<close> and in the
  conversion of an int) and there are no subnormal numbers. The model is the machine's
  arithmetic whenever every intermediate result is zero or has magnitude between
  \<open>2 powi (-1022)\<close> and \<open>2 powi 1023\<close>. For the estimator that is the case when the square
  footage is at most \<open>10 ^ 300\<close> in magnitude and the crew size is at most \<open>10 ^ 300\<close>
  (the form delivers 1000 to 4000 and 1 to 4): the largest intermediate result is then
  below \<open>2 * 10 ^ 300\<close> and the smallest nonzero one above \<open>10 powi (-302)\<close>. Every statement
  about computed figures for arbitrary inputs carries these two bounds; beyond them the
  program raises \<open>OverflowError\<close> or computes with infinities, which is not modelled.
\<close>

definition round_half_even :: "rat \<Rightarrow> int" where
  "round_half_even x =
     (let f = \<lfloor>x\<rfloor>; d = x - of_int f
      in if d < 1 / 2 then f
         else if 1 / 2 < d then f + 1
         else if even f then f else f + 1)"

text \<open>\<open>ilog2 x\<close> is the integer \<open>e\<close> with \<open>2 powi e \<le> x < 2 powi (e + 1)\<close>, for \<open>0 < x\<close>.\<close>

definition ilog2 :: "rat \<Rightarrow> int" where
  "ilog2 x = (if 1 \<le> x then bitlen \<lfloor>x\<rfloor> - 1 else - bitlen (\<lceil>1 / x\<rceil> - 1))"

definition fl :: "rat \<Rightarrow> rat" where
  "fl x =
     (if x = 0 then 0
      else let e = ilog2 \<bar>x\<bar> - 52
           in of_int (round_half_even (x / 2 powi e)) * 2 powi e)"

text \<open>
  The exceptions that the model raises: a missing dict key, a zero divisor, and a failing
  \<open>st.error\<close> call (the last only in the section on the module state).
\<close>

datatype py_error = KeyError string | ZeroDivisionError | StreamlitAPIException

text \<open>\<open>float(n)\<close> for an int, as done implicitly when an int meets a float.\<close>

definition float_of_int :: "int \<Rightarrow> rat" where
  "float_of_int n = fl (of_int n)"

text \<open>\<open>x / y\<close> on floats, and on two ints (true division, correctly rounded).\<close>

definition py_truediv :: "rat \<Rightarrow> rat \<Rightarrow> py_error + rat" where
  "py_truediv x y = (if y = 0 then Inl ZeroDivisionError else Inr (fl (x / y)))"

definition int_truediv :: "int \<Rightarrow> int \<Rightarrow> py_error + rat" where
  "int_truediv m n = (if n = 0 then Inl ZeroDivisionError else Inr (fl (of_int m / of_int n)))"

definition py_mul :: "rat \<Rightarrow> rat \<Rightarrow> rat" where
  "py_mul x y = fl (x * y)"

definition py_add :: "rat \<Rightarrow> rat \<Rightarrow> rat" where
  "py_add x y = fl (x + y)"

text \<open>
  \<open>round(x, n)\<close> on a float, for \<open>n \<ge> 0\<close>: the decimal with \<open>n\<close> fractional digits nearest
  to the exact value of \<open>x\<close> (ties to even), converted back to a float.
\<close>

definition py_round :: "rat \<Rightarrow> nat \<Rightarrow> rat" where
  "py_round x n = fl (of_int (round_half_even (x * 10 ^ n)) / 10 ^ n)"

section \<open>The form and the constants\<close>

definition prep_options :: "string list" where
  "prep_options =
     [''Low (minimal prep)'', ''Medium (some scraping/patching)'', ''High (extensive prep)'']"

definition PAINTER_WAGE :: int where "PAINTER_WAGE = 20"
definition PAINT_COST_PER_GALLON :: int where "PAINT_COST_PER_GALLON = 40"
definition GALLONS_PER_100_SQFT :: rat where "GALLONS_PER_100_SQFT = fl (25 / 1000)"
definition SUPPLIES_COST_PER_1000_SQFT :: int where "SUPPLIES_COST_PER_1000_SQFT = 50"
definition MARKUP_PERCENT :: rat where "MARKUP_PERCENT = fl (45 / 100)"
definition MAX_WEEK_HOURS :: int where "MAX_WEEK_HOURS = 50"

definition TIME_ESTIMATES :: "string \<rightharpoonup> (string \<rightharpoonup> int)" where
  "TIME_ESTIMATES = map_of
     [(''Interior Only'', map_of [(''Low'', 10), (''Medium'', 12), (''High'', 15)]),
      (''Exterior Only'', map_of [(''Low'', 12), (''Medium'', 15), (''High'', 20)]),
      (''Both Interior and Exterior'', map_of [(''Low'', 22), (''Medium'', 27), (''High'', 35)])]"

text \<open>\<open>d[k]\<close> on a dict with string keys.\<close>

definition getitem :: "(string \<rightharpoonup> 'v) \<Rightarrow> string \<Rightarrow> py_error + 'v" where
  "getitem d k = (case d k of None \<Rightarrow> Inl (KeyError k) | Some v \<Rightarrow> Inr v)"

section \<open>What the page shows\<close>

text \<open>
  The page is the list of elements written so far; every \<open>st.*\<close> call appends one.
  A formatted message is kept as its constructor and the values it prints.
\<close>

record bid_document =
  doc_date :: string
  doc_sq_ft :: int
  doc_scope :: string
  doc_prep_level :: string
  doc_crew_size :: int
  doc_total_hours :: rat
  doc_labor_cost :: rat
  doc_material_cost :: rat
  doc_total_cost :: rat

datatype ui_event =
    Error_hour_calculation py_error
  | Error_cost_calculation py_error
  | Error_generating_pdf
  | Error_calculation_failed
  | Error_over_week_limit rat int
  | Success_one_week int
  | Header_bid_summary
  | Write_total_hours rat
  | Write_hours_per_painter rat
  | Write_labor_cost rat int
  | Write_material_cost rat
  | Write_total_cost rat
  | Download_button bid_document

type_synonym ui = "ui_event list"

section \<open>The estimator\<close>

text \<open>
  \<open>sq_ft\<close> and \<open>crew_size\<close> are ints, as the number input and the slider return them.
  \<open>sq_ft / 1000\<close> and \<open>paint_area / 100\<close> divide two ints; every other operation has a
  float operand, and its int operand is converted first. On its \<open>KeyError\<close> path
  \<open>calculate_hours\<close> returns the int 0, which the later operations treat as the float 0.0
  with the same results. An exception other than \<open>KeyError\<close> leaves \<open>calculate_hours\<close>
  (\<open>Inl\<close>) and is caught by \<open>calculate_costs\<close>.
\<close>

definition calculate_hours :: "int \<Rightarrow> string \<Rightarrow> string \<Rightarrow> ui \<Rightarrow> (py_error + rat) \<times> ui" where
  "calculate_hours sq_ft scope prep_level ui =
     (case getitem TIME_ESTIMATES scope of
        Inl e \<Rightarrow> (Inr 0, ui @ [Error_hour_calculation e])
      | Inr row \<Rightarrow>
          (case getitem row prep_level of
             Inl e \<Rightarrow> (Inr 0, ui @ [Error_hour_calculation e])
           | Inr base_hours_per_1000 \<Rightarrow>
               (case int_truediv sq_ft 1000 of
                  Inl e \<Rightarrow> (Inl e, ui)
                | Inr q \<Rightarrow>
                    (let total_hours = py_mul q (float_of_int base_hours_per_1000)
                     in (Inr (py_round total_hours 1), ui)))))"

type_synonym costs = "rat \<times> rat \<times> rat \<times> rat \<times> rat"

definition calculate_costs :: "int \<Rightarrow> string \<Rightarrow> string \<Rightarrow> int \<Rightarrow> ui \<Rightarrow> costs \<times> ui" where
  "calculate_costs sq_ft scope prep_level crew_size ui =
     (case calculate_hours sq_ft scope prep_level ui of
        (Inl e, ui1) \<Rightarrow> ((0, 0, 0, 0, 0), ui1 @ [Error_cost_calculation e])
      | (Inr total_hours, ui1) \<Rightarrow>
          (case (if crew_size > 0 then py_truediv total_hours (float_of_int crew_size)
                 else Inr total_hours) of
             Inl e \<Rightarrow> ((0, 0, 0, 0, 0), ui1 @ [Error_cost_calculation e])
           | Inr hours_per_painter \<Rightarrow>
               (let labor_cost = py_mul total_hours (float_of_int PAINTER_WAGE);
                    paint_area = (if scope = ''Both Interior and Exterior'' then sq_ft * 2 else sq_ft)
                in case int_truediv paint_area 100 of
                     Inl e \<Rightarrow> ((0, 0, 0, 0, 0), ui1 @ [Error_cost_calculation e])
                   | Inr a \<Rightarrow>
                       (let gallons_needed = py_mul a GALLONS_PER_100_SQFT;
                            paint_cost = py_mul gallons_needed (float_of_int PAINT_COST_PER_GALLON)
                        in case int_truediv sq_ft 1000 of
                             Inl e \<Rightarrow> ((0, 0, 0, 0, 0), ui1 @ [Error_cost_calculation e])
                           | Inr t \<Rightarrow>
                               (let supplies_cost = py_mul t (float_of_int SUPPLIES_COST_PER_1000_SQFT);
                                    material_cost = py_add paint_cost supplies_cost;
                                    subtotal = py_add labor_cost material_cost;
                                    markup = py_mul subtotal MARKUP_PERCENT;
                                    total_cost = py_add subtotal markup
                                in ((total_hours, hours_per_painter, labor_cost, material_cost,
                                     total_cost), ui1))))))"

section \<open>The document and the button\<close>

text \<open>
  The drawing library, the clock and the file system are outside the program:
  \<open>canvas_fails\<close> says whether writing the PDF raises, \<open>today\<close> is the date printed.
\<close>

record env =
  canvas_fails :: bool
  today :: string

definition generate_pdf_bid ::
  "env \<Rightarrow> int \<Rightarrow> string \<Rightarrow> string \<Rightarrow> int \<Rightarrow> rat \<Rightarrow> rat \<Rightarrow> rat \<Rightarrow> rat \<Rightarrow> ui
     \<Rightarrow> bid_document option \<times> ui" where
  "generate_pdf_bid w sq_ft scope prep_level crew_size total_hours labor_cost material_cost
       total_cost ui =
     (if canvas_fails w then (None, ui @ [Error_generating_pdf])
      else (Some \<lparr>doc_date = today w, doc_sq_ft = sq_ft, doc_scope = scope,
                  doc_prep_level = prep_level, doc_crew_size = crew_size,
                  doc_total_hours = total_hours, doc_labor_cost = labor_cost,
                  doc_material_cost = material_cost, doc_total_cost = total_cost\<rparr>, ui))"

definition generate_bid :: "env \<Rightarrow> int \<Rightarrow> string \<Rightarrow> string \<Rightarrow> int \<Rightarrow> ui \<Rightarrow> ui" where
  "generate_bid w sq_ft scope prep_level crew_size ui =
     (case calculate_costs sq_ft scope prep_level crew_size ui of
        ((total_hours, hours_per_painter, labor_cost, material_cost, total_cost), ui1) \<Rightarrow>
          if total_hours = 0 then ui1 @ [Error_calculation_failed]
          else if hours_per_painter \<le> of_int MAX_WEEK_HOURS then
            (let ui2 = ui1 @ [Success_one_week crew_size, Header_bid_summary,
                              Write_total_hours total_hours,
                              Write_hours_per_painter hours_per_painter,
                              Write_labor_cost labor_cost PAINTER_WAGE,
                              Write_material_cost material_cost,
                              Write_total_cost total_cost]
             in case generate_pdf_bid w sq_ft scope prep_level crew_size total_hours labor_cost
                       material_cost total_cost ui2 of
                  (None, ui3) \<Rightarrow> ui3
                | (Some pdf_file, ui3) \<Rightarrow> ui3 @ [Download_button pdf_file])
          else ui1 @ [Error_over_week_limit hours_per_painter MAX_WEEK_HOURS])"

section \<open>The module state\<close>

text \<open>
  The functions read the module's globals (lines 28 to 40) when they are called, and every
  \<open>st.error\<close> call can itself raise. Here both are explicit: a run starts in a world made
  of the current globals, the page, and what the coming \<open>st.error\<close> calls will do (\<open>True\<close>
  for a call that raises; calls after the end of the list return normally). A run returns
  the world it leaves behind.
\<close>

record module_globals =
  G_PAINTER_WAGE :: int
  G_PAINT_COST_PER_GALLON :: int
  G_GALLONS_PER_100_SQFT :: rat
  G_SUPPLIES_COST_PER_1000_SQFT :: int
  G_MARKUP_PERCENT :: rat
  G_MAX_WEEK_HOURS :: int
  G_TIME_ESTIMATES :: "string \<rightharpoonup> (string \<rightharpoonup> int)"

text \<open>The globals as the module body binds them.\<close>

definition module_init :: module_globals where
  "module_init =
     \<lparr>G_PAINTER_WAGE = PAINTER_WAGE, G_PAINT_COST_PER_GALLON = PAINT_COST_PER_GALLON,
      G_GALLONS_PER_100_SQFT = GALLONS_PER_100_SQFT,
      G_SUPPLIES_COST_PER_1000_SQFT = SUPPLIES_COST_PER_1000_SQFT,
      G_MARKUP_PERCENT = MARKUP_PERCENT, G_MAX_WEEK_HOURS = MAX_WEEK_HOURS,
      G_TIME_ESTIMATES = TIME_ESTIMATES\<rparr>"

record world =
  globals :: module_globals
  page :: ui
  st_error_raises :: "bool list"

definition st_error :: "ui_event \<Rightarrow> world \<Rightarrow> (py_error + unit) \<times> world" where
  "st_error ev w =
     (case st_error_raises w of
        [] \<Rightarrow> (Inr (), w\<lparr>page := page w @ [ev]\<rparr>)
      | raises # later \<Rightarrow>
          if raises then (Inl StreamlitAPIException, w\<lparr>st_error_raises := later\<rparr>)
          else (Inr (), w\<lparr>page := page w @ [ev], st_error_raises := later\<rparr>))"

definition calculate_hours_in :: "int \<Rightarrow> string \<Rightarrow> string \<Rightarrow> world \<Rightarrow> (py_error + rat) \<times> world" where
  "calculate_hours_in sq_ft scope prep_level w =
     (case getitem (G_TIME_ESTIMATES (globals w)) scope of
        Inl e \<Rightarrow>
          (case st_error (Error_hour_calculation e) w of
             (Inl x, w1) \<Rightarrow> (Inl x, w1)
           | (Inr _, w1) \<Rightarrow> (Inr 0, w1))
      | Inr row \<Rightarrow>
          (case getitem row prep_level of
             Inl e \<Rightarrow>
               (case st_error (Error_hour_calculation e) w of
                  (Inl x, w1) \<Rightarrow> (Inl x, w1)
                | (Inr _, w1) \<Rightarrow> (Inr 0, w1))
           | Inr base_hours_per_1000 \<Rightarrow>
               (case int_truediv sq_ft 1000 of
                  Inl e \<Rightarrow> (Inl e, w)
                | Inr q \<Rightarrow>
                    (let total_hours = py_mul q (float_of_int base_hours_per_1000)
                     in (Inr (py_round total_hours 1), w)))))"

text \<open>The \<open>except Exception\<close> clause of \<open>calculate_costs\<close> (lines 75 to 77).\<close>

definition except_cost :: "py_error \<Rightarrow> world \<Rightarrow> (py_error + costs) \<times> world" where
  "except_cost e w =
     (case st_error (Error_cost_calculation e) w of
        (Inl x, w1) \<Rightarrow> (Inl x, w1)
      | (Inr _, w1) \<Rightarrow> (Inr (0, 0, 0, 0, 0), w1))"

definition calculate_costs_in ::
  "int \<Rightarrow> string \<Rightarrow> string \<Rightarrow> int \<Rightarrow> world \<Rightarrow> (py_error + costs) \<times> world" where
  "calculate_costs_in sq_ft scope prep_level crew_size w =
     (case calculate_hours_in sq_ft scope prep_level w of
        (Inl e, w1) \<Rightarrow> except_cost e w1
      | (Inr total_hours, w1) \<Rightarrow>
          (case (if crew_size > 0 then py_truediv total_hours (float_of_int crew_size)
                 else Inr total_hours) of
             Inl e \<Rightarrow> except_cost e w1
           | Inr hours_per_painter \<Rightarrow>
               (let labor_cost = py_mul total_hours (float_of_int (G_PAINTER_WAGE (globals w1)));
                    paint_area = (if scope = ''Both Interior and Exterior'' then sq_ft * 2 else sq_ft)
                in case int_truediv paint_area 100 of
                     Inl e \<Rightarrow> except_cost e w1
                   | Inr a \<Rightarrow>
                       (let gallons_needed = py_mul a (G_GALLONS_PER_100_SQFT (globals w1));
                            paint_cost = py_mul gallons_needed
                                           (float_of_int (G_PAINT_COST_PER_GALLON (globals w1)))
                        in case int_truediv sq_ft 1000 of
                             Inl e \<Rightarrow> except_cost e w1
                           | Inr t \<Rightarrow>
                               (let supplies_cost =
                                      py_mul t (float_of_int
                                                  (G_SUPPLIES_COST_PER_1000_SQFT (globals w1)));
                                    material_cost = py_add paint_cost supplies_cost;
                                    subtotal = py_add labor_cost material_cost;
                                    markup = py_mul subtotal (G_MARKUP_PERCENT (globals w1));
                                    total_cost = py_add subtotal markup
                                in (Inr (total_hours, hours_per_painter, labor_cost,
                                         material_cost, total_cost), w1))))))"

section \<open>Rounding to a float\<close>

lemma round_half_even_error: "\<bar>of_int (round_half_even x) - x\<bar> \<le> 1 / 2"
proof -
  have "of_int \<lfloor>x\<rfloor> \<le> x" "x < of_int \<lfloor>x\<rfloor> + 1" by linarith+
  then show ?thesis
    unfolding round_half_even_def Let_def by (auto simp: abs_le_iff)
qed

lemma ilog2_bounds:
  assumes "0 < x"
  shows "2 powi (ilog2 x) \<le> x" and "x < 2 powi (ilog2 x + 1)"
proof -
  have "2 powi (ilog2 x) \<le> x \<and> x < 2 powi (ilog2 x + 1)"
  proof (cases "1 \<le> x")
    case True
    define n where "n = \<lfloor>x\<rfloor>"
    have n: "0 < n" "of_int n \<le> x" "x < of_int n + 1"
      using True unfolding n_def by linarith+
    have b: "1 \<le> bitlen n" using n(1) bitlen_eq_zero_iff[of n] bitlen_nonneg[of n] by linarith
    from bitlen_bounds[OF n(1)] have lo: "2 ^ nat (bitlen n - 1) \<le> n" and hi: "n < 2 ^ nat (bitlen n)"
      by auto
    have e: "ilog2 x = bitlen n - 1" using True by (simp add: ilog2_def n_def)
    have "(2::rat) powi (bitlen n - 1) = 2 ^ nat (bitlen n - 1)"
      using b by (simp add: power_int_def)
    also have "\<dots> = of_int (2 ^ nat (bitlen n - 1))" by simp
    also have "\<dots> \<le> of_int n" using lo by (simp only: of_int_le_iff)
    finally have 1: "(2::rat) powi (bitlen n - 1) \<le> x" using n(2) by linarith
    have "n + 1 \<le> 2 ^ nat (bitlen n)" using hi by linarith
    then have "(of_int (n + 1) :: rat) \<le> of_int (2 ^ nat (bitlen n))" by (simp only: of_int_le_iff)
    then have "x < 2 ^ nat (bitlen n)" using n(3) by simp
    also have "(2::rat) ^ nat (bitlen n) = 2 powi (bitlen n - 1 + 1)"
      using b by (simp add: power_int_def)
    finally show ?thesis using 1 e by simp
  next
    case False
    define r where "r = 1 / x"
    define m where "m = \<lceil>r\<rceil> - 1"
    have r: "1 < r" using False assms by (simp add: r_def)
    have m: "0 < m" "of_int m < r" "r \<le> of_int m + 1"
      using r unfolding m_def by linarith+
    have b: "1 \<le> bitlen m" using m(1) bitlen_eq_zero_iff[of m] bitlen_nonneg[of m] by linarith
    from bitlen_bounds[OF m(1)] have lo: "2 ^ nat (bitlen m - 1) \<le> m" and hi: "m < 2 ^ nat (bitlen m)"
      by auto
    have e: "ilog2 x = - bitlen m" using False by (simp add: ilog2_def m_def r_def)
    have x: "x = 1 / r" using assms by (simp add: r_def)
    have "m + 1 \<le> 2 ^ nat (bitlen m)" using hi by linarith
    then have "(of_int (m + 1) :: rat) \<le> of_int (2 ^ nat (bitlen m))" by (simp only: of_int_le_iff)
    then have "r \<le> 2 ^ nat (bitlen m)" using m(3) by simp
    then have "1 / (2::rat) ^ nat (bitlen m) \<le> 1 / r" using r by (simp add: frac_le)
    moreover have "(2::rat) powi (- bitlen m) = 1 / 2 ^ nat (bitlen m)"
      using b by (simp add: power_int_def field_simps)
    ultimately have 1: "2 powi (ilog2 x) \<le> x" using e x by simp
    have "(of_int (2 ^ nat (bitlen m - 1)) :: rat) \<le> of_int m" using lo by (simp only: of_int_le_iff)
    then have "(2::rat) ^ nat (bitlen m - 1) \<le> of_int m" by simp
    then have "(2::rat) ^ nat (bitlen m - 1) < r" using m(2) by linarith
    then have "1 / r < 1 / (2::rat) ^ nat (bitlen m - 1)" by (simp add: frac_less2)
    moreover have "(2::rat) powi (- bitlen m + 1) = 1 / 2 ^ nat (bitlen m - 1)"
    proof (cases "bitlen m = 1")
      case True then show ?thesis by simp
    next
      case False
      then have "- bitlen m + 1 < 0" using b by linarith
      moreover have "nat (- (- bitlen m + 1)) = nat (bitlen m - 1)" by simp
      ultimately show ?thesis by (simp add: power_int_def field_simps)
    qed
    ultimately have 2: "x < 2 powi (ilog2 x + 1)" using e x by simp
    show ?thesis using 1 2 by simp
  qed
  then show "2 powi (ilog2 x) \<le> x" and "x < 2 powi (ilog2 x + 1)" by simp_all
qed


lemma fl_error: "\<bar>fl x - x\<bar> \<le> \<bar>x\<bar> / 2 ^ 53"
proof (cases "x = 0")
  case True
  then show ?thesis by (simp add: fl_def)
next
  case False
  define e where "e = ilog2 \<bar>x\<bar> - 52"
  define p :: rat where "p = 2 powi e"
  have p: "0 < p" by (simp add: p_def)
  have flx: "fl x = of_int (round_half_even (x / p)) * p"
    using False by (simp add: fl_def Let_def e_def p_def)
  have "fl x - x = (of_int (round_half_even (x / p)) - x / p) * p"
    using p by (simp add: flx field_simps)
  then have "\<bar>fl x - x\<bar> = \<bar>of_int (round_half_even (x / p)) - x / p\<bar> * p"
    using p by (simp add: abs_mult)
  also have "\<dots> \<le> 1 / 2 * p"
    using round_half_even_error[of "x / p"] p by (intro mult_right_mono) simp_all
  finally have 1: "\<bar>fl x - x\<bar> \<le> p / 2" by simp
  have "2 powi (ilog2 \<bar>x\<bar>) \<le> \<bar>x\<bar>" using False by (intro ilog2_bounds) simp
  moreover have "(2::rat) powi (ilog2 \<bar>x\<bar>) = p * 2 ^ 52"
    unfolding p_def e_def by (simp add: power_int_diff)
  ultimately have "p * 2 ^ 52 \<le> \<bar>x\<bar>" by simp
  then have "p / 2 \<le> \<bar>x\<bar> / 2 ^ 53" by simp
  with 1 show ?thesis by linarith
qed

lemma fl_pos: "0 < x \<Longrightarrow> 0 < fl x"
proof -
  assume x: "0 < x"
  then have "\<bar>x\<bar> / 2 ^ 53 < x" by simp
  with fl_error[of x] show ?thesis by linarith
qed

lemma fl_neg: "x < 0 \<Longrightarrow> fl x < 0"
proof -
  assume x: "x < 0"
  then have "\<bar>x\<bar> / 2 ^ 53 < - x" by simp
  with fl_error[of x] show ?thesis by linarith
qed

text \<open>The floats nearest to 0.1 and to 20.1, and a tie: \<open>2 ^ 53 + 1\<close> goes to the even neighbour.\<close>

lemma fl_examples:
  "fl (1 / 10) = 3602879701896397 / 36028797018963968"
  "fl (201 / 10) = 2828823515942093 / 140737488355328"
  "fl (2 ^ 53 + 1) = 2 ^ 53"
  "fl (2 ^ 53 + 3) = 2 ^ 53 + 4"
  by code_simp+

lemma fl_zero [simp]: "fl 0 = 0"
  by (simp add: fl_def)

lemma fl_eq_0_iff [simp]: "fl x = 0 \<longleftrightarrow> x = 0"
  using fl_pos[of x] fl_neg[of x] by (cases "x = 0"; cases "0 < x") auto

lemma float_of_int_eq_0_iff [simp]: "float_of_int n = 0 \<longleftrightarrow> n = 0"
  by (simp add: float_of_int_def)

lemma round_half_even_of_int [simp]: "round_half_even (of_int z) = z"
  by (simp add: round_half_even_def)

lemma fl_of_int:
  assumes "\<bar>n\<bar> < 2 ^ 53"
  shows "fl (of_int n) = of_int n"
proof (cases "n = 0")
  case True
  then show ?thesis by simp
next
  case False
  define x :: rat where "x = \<bar>of_int n\<bar>"
  have x: "1 \<le> x" "x < 2 ^ 53"
  proof -
    have "1 \<le> \<bar>n\<bar>" using False by linarith
    then have "(of_int 1 :: rat) \<le> of_int \<bar>n\<bar>" by (simp only: of_int_le_iff)
    then show "1 \<le> x" by (simp add: x_def)
    have "(of_int \<bar>n\<bar> :: rat) < of_int (2 ^ 53)" using assms by (simp only: of_int_less_iff)
    then show "x < 2 ^ 53" by (simp add: x_def)
  qed
  define e where "e = ilog2 x"
  have "2 powi e \<le> x" "x < 2 powi (e + 1)" using ilog2_bounds[of x] x unfolding e_def by simp_all
  have "(2::rat) powi e < 2 powi 53" using \<open>2 powi e \<le> x\<close> x(2) by simp
  then have "e < 53" by (rule power_int_le_imp_less_exp[rotated]) simp_all
  then have e1: "e \<le> 52" by simp
  define k where "k = nat (52 - e)"
  have p: "(2::rat) powi (e - 52) = 1 / 2 ^ k"
  proof (cases "e = 52")
    case True
    then show ?thesis by (simp add: k_def)
  next
    case False
    then have "e - 52 < 0" using e1 by simp
    moreover have "nat (- (e - 52)) = k" by (simp add: k_def)
    ultimately show ?thesis by (simp add: power_int_def field_simps)
  qed
  have "of_int n / (2::rat) powi (e - 52) = of_int (n * 2 ^ k)" by (simp add: p)
  then have "round_half_even (of_int n / (2::rat) powi (e - 52)) = n * 2 ^ k"
    by (simp only: round_half_even_of_int)
  then show ?thesis
    using False by (simp add: fl_def Let_def x_def[symmetric] e_def[symmetric] p)
qed

text \<open>Accumulated rounding error of the markup and of the hours.\<close>

lemma markup_arith:
  fixes s s' m t :: rat
  assumes 1: "\<bar>s' - s\<bar> \<le> \<bar>s\<bar> / 2 ^ 53"
    and 2: "\<bar>m - s' * (8106479329266893 / 18014398509481984)\<bar>
          \<le> \<bar>s' * (8106479329266893 / 18014398509481984)\<bar> / 2 ^ 53"
    and 3: "\<bar>t - (s' + m)\<bar> \<le> \<bar>s' + m\<bar> / 2 ^ 53"
  shows "\<bar>t - s * (1 + 45 / 100)\<bar> \<le> \<bar>s\<bar> / 2 ^ 51"
proof -
  define c :: rat where "c = 8106479329266893 / 18014398509481984"
  define u :: rat where "u = 1 / 2 ^ 53"
  define w :: rat where "w = 1 + 45 / 100"
  have w: "0 \<le> w" by (simp add: w_def)
  have c: "0 \<le> c" "c \<le> 46 / 100" "\<bar>c - 45 / 100\<bar> \<le> u / 2" and u: "0 \<le> u" "u \<le> 1 / 1000"
    by (simp_all add: c_def u_def)
  have e1: "\<bar>s' - s\<bar> \<le> \<bar>s\<bar> * u" using 1 by (simp add: u_def)
  have "\<bar>s'\<bar> \<le> \<bar>s\<bar> + \<bar>s' - s\<bar>" by linarith
  also have "\<dots> \<le> \<bar>s\<bar> + \<bar>s\<bar> * u" using e1 by linarith
  finally have a1: "\<bar>s'\<bar> \<le> \<bar>s\<bar> * (1 + u)" by (simp add: algebra_simps)
  have b: "\<bar>s' * c\<bar> = \<bar>s'\<bar> * c" using c(1) by (simp add: abs_mult)
  have a2: "\<bar>m - s' * c\<bar> \<le> \<bar>s'\<bar> * c * u" using 2 b by (simp add: c_def u_def)
  have a3: "\<bar>s' + m\<bar> \<le> \<bar>s'\<bar> * (1 + c * (1 + u))"
  proof -
    have "\<bar>s' + m\<bar> \<le> \<bar>s'\<bar> + \<bar>s' * c\<bar> + \<bar>m - s' * c\<bar>" by linarith
    also have "\<dots> \<le> \<bar>s'\<bar> + \<bar>s'\<bar> * c + \<bar>s'\<bar> * c * u" using a2 b by linarith
    finally show ?thesis by (simp add: algebra_simps)
  qed
  have a4: "\<bar>t - (s' + m)\<bar> \<le> \<bar>s'\<bar> * (1 + c * (1 + u)) * u"
  proof -
    have "\<bar>t - (s' + m)\<bar> \<le> \<bar>s' + m\<bar> * u" using 3 by (simp add: u_def)
    also have "\<dots> \<le> \<bar>s'\<bar> * (1 + c * (1 + u)) * u" using a3 u(1) by (rule mult_right_mono)
    finally show ?thesis .
  qed
  have a5: "\<bar>s' * (c - 45 / 100)\<bar> \<le> \<bar>s'\<bar> * (u / 2)"
    unfolding abs_mult using c(3) by (intro mult_left_mono) simp_all
  have split: "t - s * (1 + 45 / 100) =
      (t - (s' + m)) + (m - s' * c) + s' * (c - 45 / 100) + w * (s' - s)"
    by (simp add: field_simps w_def)
  have "\<bar>t - s * (1 + 45 / 100)\<bar>
      \<le> \<bar>t - (s' + m)\<bar> + \<bar>m - s' * c\<bar> + \<bar>s' * (c - 45 / 100)\<bar> + \<bar>w * (s' - s)\<bar>"
    unfolding split by linarith
  also have "\<bar>w * (s' - s)\<bar> = w * \<bar>s' - s\<bar>"
    using w by (simp add: abs_mult)
  also have "\<bar>t - (s' + m)\<bar> + \<bar>m - s' * c\<bar> + \<bar>s' * (c - 45 / 100)\<bar> + w * \<bar>s' - s\<bar>
      \<le> \<bar>s'\<bar> * ((1 + c * (1 + u)) * u + c * u + u / 2) + w * (\<bar>s\<bar> * u)"
  proof -
    have "w * \<bar>s' - s\<bar> \<le> w * (\<bar>s\<bar> * u)"
      using e1 w by (intro mult_left_mono) simp_all
    moreover have "\<bar>s'\<bar> * ((1 + c * (1 + u)) * u + c * u + u / 2) =
        \<bar>s'\<bar> * (1 + c * (1 + u)) * u + \<bar>s'\<bar> * c * u + \<bar>s'\<bar> * (u / 2)"
      by (simp add: algebra_simps)
    ultimately show ?thesis using a4 a2 a5 by linarith
  qed
  also have "\<dots> \<le> \<bar>s\<bar> * (1 + u) * ((1 + c * (1 + u)) * u + c * u + u / 2) + w * (\<bar>s\<bar> * u)"
    using a1 c(1) u(1) by (intro add_right_mono mult_right_mono) simp_all
  also have "\<dots> = \<bar>s\<bar> * ((1 + u) * ((1 + c * (1 + u)) * u + c * u + u / 2) + w * u)"
    by (simp add: algebra_simps)
  also have "\<dots> \<le> \<bar>s\<bar> * (1 / 2 ^ 51)"
    by (intro mult_left_mono) (simp_all add: c_def u_def w_def)
  finally show ?thesis by simp
qed

lemma hours_arith:
  fixes z h q y r t :: rat
  assumes 1: "\<bar>q - z\<bar> \<le> \<bar>z\<bar> / 2 ^ 53"
    and 2: "\<bar>y - q * h\<bar> \<le> \<bar>q * h\<bar> / 2 ^ 53"
    and 3: "\<bar>r - y\<bar> \<le> 1 / 20"
    and 4: "\<bar>t - r\<bar> \<le> \<bar>r\<bar> / 2 ^ 53"
    and h: "0 \<le> h"
  shows "\<bar>t - z * h\<bar> \<le> 1 / 20 + (\<bar>z * h\<bar> + 1) / 2 ^ 51"
proof -
  define u :: rat where "u = 1 / 2 ^ 53"
  define X where "X = \<bar>z * h\<bar>"
  have u: "0 \<le> u" by (simp add: u_def)
  have X: "0 \<le> X" by (simp add: X_def)
  have "\<bar>q * h - z * h\<bar> = \<bar>q - z\<bar> * h"
    using h by (simp add: abs_mult left_diff_distrib[symmetric])
  also have "\<dots> \<le> \<bar>z\<bar> * u * h"
    using 1 h by (intro mult_right_mono) (simp_all add: u_def)
  also have "\<dots> = X * u" using h by (simp add: X_def abs_mult)
  finally have a1: "\<bar>q * h - z * h\<bar> \<le> X * u" .
  have "\<bar>q * h\<bar> \<le> \<bar>z * h\<bar> + \<bar>q * h - z * h\<bar>" by linarith
  then have a2: "\<bar>q * h\<bar> \<le> X + X * u" using a1 by (simp add: X_def)
  have "\<bar>y - q * h\<bar> \<le> \<bar>q * h\<bar> * u" using 2 by (simp add: u_def)
  also have "\<dots> \<le> (X + X * u) * u" using a2 u by (rule mult_right_mono)
  finally have a3: "\<bar>y - q * h\<bar> \<le> (X + X * u) * u" .
  have a4: "\<bar>r - z * h\<bar> \<le> 1 / 20 + (X + X * u) * u + X * u"
    using 3 a3 a1 by linarith
  have "\<bar>r\<bar> \<le> \<bar>z * h\<bar> + \<bar>r - z * h\<bar>" by linarith
  then have a5: "\<bar>r\<bar> \<le> X + (1 / 20 + (X + X * u) * u + X * u)"
    using a4 by (simp add: X_def)
  have "\<bar>t - r\<bar> \<le> \<bar>r\<bar> * u" using 4 by (simp add: u_def)
  also have "\<dots> \<le> (X + (1 / 20 + (X + X * u) * u + X * u)) * u"
    using a5 u by (rule mult_right_mono)
  finally have a6: "\<bar>t - r\<bar> \<le> (X + (1 / 20 + (X + X * u) * u + X * u)) * u" .
  have "\<bar>t - z * h\<bar> \<le> \<bar>t - r\<bar> + \<bar>r - z * h\<bar>" by linarith
  also have "\<dots> \<le> (X + (1 / 20 + (X + X * u) * u + X * u)) * u
                  + (1 / 20 + (X + X * u) * u + X * u)"
    using a6 a4 by linarith
  also have "\<dots> = 1 / 20 + X * (3 * u + 3 * u * u + u * u * u) + u / 20"
    by (simp add: algebra_simps)
  also have "\<dots> \<le> 1 / 20 + X * (1 / 2 ^ 51) + 1 / 2 ^ 51"
  proof -
    have "3 * u + 3 * u * u + u * u * u \<le> 1 / 2 ^ 51" by (simp add: u_def)
    then have "X * (3 * u + 3 * u * u + u * u * u) \<le> X * (1 / 2 ^ 51)"
      using X by (rule mult_left_mono)
    moreover have "u / 20 \<le> 1 / 2 ^ 51" by (simp add: u_def)
    ultimately show ?thesis by linarith
  qed
  finally show ?thesis by (simp add: X_def add_divide_distrib)
qed

lemma product_error:
  fixes z h q y :: rat
  assumes 1: "\<bar>q - z\<bar> \<le> \<bar>z\<bar> / 2 ^ 53"
    and 2: "\<bar>y - q * h\<bar> \<le> \<bar>q * h\<bar> / 2 ^ 53"
    and h: "0 \<le> h"
  shows "\<bar>y - z * h\<bar> \<le> \<bar>z * h\<bar> / 2 ^ 51"
proof -
  define u :: rat where "u = 1 / 2 ^ 53"
  define X where "X = \<bar>z * h\<bar>"
  have u: "0 \<le> u" by (simp add: u_def)
  have X: "0 \<le> X" by (simp add: X_def)
  have "\<bar>q * h - z * h\<bar> = \<bar>q - z\<bar> * h"
    using h by (simp add: abs_mult left_diff_distrib[symmetric])
  also have "\<dots> \<le> \<bar>z\<bar> * u * h"
    using 1 h by (intro mult_right_mono) (simp_all add: u_def)
  also have "\<dots> = X * u" using h by (simp add: X_def abs_mult)
  finally have a1: "\<bar>q * h - z * h\<bar> \<le> X * u" .
  have "\<bar>q * h\<bar> \<le> \<bar>z * h\<bar> + \<bar>q * h - z * h\<bar>" by linarith
  then have a2: "\<bar>q * h\<bar> \<le> X + X * u" using a1 by (simp add: X_def)
  have "\<bar>y - q * h\<bar> \<le> \<bar>q * h\<bar> * u" using 2 by (simp add: u_def)
  also have "\<dots> \<le> (X + X * u) * u" using a2 u by (rule mult_right_mono)
  finally have a3: "\<bar>y - q * h\<bar> \<le> (X + X * u) * u" .
  have "\<bar>y - z * h\<bar> \<le> \<bar>y - q * h\<bar> + \<bar>q * h - z * h\<bar>" by linarith
  also have "\<dots> \<le> (X + X * u) * u + X * u" using a3 a1 by linarith
  also have "\<dots> = X * (2 * u + u * u)" by (simp add: algebra_simps)
  also have "\<dots> \<le> X * (1 / 2 ^ 51)"
    using X by (intro mult_left_mono) (simp_all add: u_def)
  finally show ?thesis by (simp add: X_def)
qed

section \<open>The estimator, step by step\<close>

lemma calculate_hours_returns:
  "\<exists>h. fst (calculate_hours sq_ft scope prep_level ui) = Inr h"
  by (simp add: calculate_hours_def int_truediv_def Let_def split: sum.splits)

lemma calculate_hours_missing_key:
  assumes "case TIME_ESTIMATES scope of None \<Rightarrow> True | Some row \<Rightarrow> row prep_level = None"
  shows "calculate_hours sq_ft scope prep_level ui =
           (Inr 0, ui @ [Error_hour_calculation
              (KeyError (case TIME_ESTIMATES scope of None \<Rightarrow> scope | Some row \<Rightarrow> prep_level))])"
  using assms by (simp add: calculate_hours_def getitem_def split: option.splits)

text \<open>The body of \<open>calculate_costs\<close> once \<open>calculate_hours\<close> has returned.\<close>

lemma calculate_costs_unfold:
  assumes "calculate_hours sq_ft scope prep_level ui = (Inr total_hours, ui1)"
  shows "calculate_costs sq_ft scope prep_level crew_size ui =
           ((total_hours,
             (if crew_size > 0 then fl (total_hours / float_of_int crew_size) else total_hours),
             py_mul total_hours (float_of_int PAINTER_WAGE),
             py_add
               (py_mul (py_mul (fl (of_int (if scope = ''Both Interior and Exterior''
                                            then sq_ft * 2 else sq_ft) / 100))
                               GALLONS_PER_100_SQFT)
                       (float_of_int PAINT_COST_PER_GALLON))
               (py_mul (fl (of_int sq_ft / 1000)) (float_of_int SUPPLIES_COST_PER_1000_SQFT)),
             (let subtotal =
                    py_add (py_mul total_hours (float_of_int PAINTER_WAGE))
                      (py_add
                         (py_mul (py_mul (fl (of_int (if scope = ''Both Interior and Exterior''
                                                      then sq_ft * 2 else sq_ft) / 100))
                                         GALLONS_PER_100_SQFT)
                                 (float_of_int PAINT_COST_PER_GALLON))
                         (py_mul (fl (of_int sq_ft / 1000))
                                 (float_of_int SUPPLIES_COST_PER_1000_SQFT)))
              in py_add subtotal (py_mul subtotal MARKUP_PERCENT))),
            ui1)"
  using assms by (simp add: calculate_costs_def py_truediv_def int_truediv_def Let_def)

lemma generate_bid_zero_hours:
  assumes "calculate_hours sq_ft scope prep_level ui = (Inr 0, ui1)"
  shows "generate_bid w sq_ft scope prep_level crew_size ui = ui1 @ [Error_calculation_failed]"
  by (simp add: generate_bid_def calculate_costs_unfold[OF assms])

section \<open>Lookups that fail\<close>

lemma prep_options_not_keys:
  assumes "prep_level \<in> set prep_options"
  shows "case TIME_ESTIMATES scope of None \<Rightarrow> True | Some row \<Rightarrow> row prep_level = None"
  using assms by (auto simp: prep_options_def TIME_ESTIMATES_def)

text \<open>
  Claim C2. The three labels the prep-level selectbox offers are not keys of any row of
  \<open>TIME_ESTIMATES\<close> (the keys are Low, Medium, High). So with a prep level taken from
  the form, whatever the scope, \<open>calculate_hours\<close> takes its \<open>KeyError\<close> branch: it writes
  the hour-calculation error and returns 0, and the button handler adds
  "Calculation failed" and renders no bid.
\<close>

theorem ui_prep_levels_always_fail:
  assumes "prep_level \<in> set prep_options"
  shows "(\<forall>row. TIME_ESTIMATES scope = Some row \<longrightarrow> row prep_level = None)
       \<and> fst (calculate_hours sq_ft scope prep_level ui) = Inr 0
       \<and> snd (calculate_hours sq_ft scope prep_level ui) =
           ui @ [Error_hour_calculation
                   (KeyError (case TIME_ESTIMATES scope of None \<Rightarrow> scope | Some row \<Rightarrow> prep_level))]
       \<and> generate_bid w sq_ft scope prep_level crew_size ui =
           ui @ [Error_hour_calculation
                   (KeyError (case TIME_ESTIMATES scope of None \<Rightarrow> scope | Some row \<Rightarrow> prep_level)),
                 Error_calculation_failed]"
proof -
  note k = prep_options_not_keys[OF assms, of scope]
  note h = calculate_hours_missing_key[OF k, of sq_ft ui]
  have "\<forall>row. TIME_ESTIMATES scope = Some row \<longrightarrow> row prep_level = None"
    using k by (auto split: option.splits)
  moreover have "generate_bid w sq_ft scope prep_level crew_size ui =
           ui @ [Error_hour_calculation
                   (KeyError (case TIME_ESTIMATES scope of None \<Rightarrow> scope | Some row \<Rightarrow> prep_level)),
                 Error_calculation_failed]"
    using generate_bid_zero_hours[OF h, of w crew_size] by simp
  ultimately show ?thesis using h by simp
qed

text \<open>The theorem at the form's defaults.\<close>

theorem ui_prep_levels_always_fail_witness:
  "''Low (minimal prep)'' \<in> set prep_options
   \<and> fst (calculate_hours 2000 ''Interior Only'' ''Low (minimal prep)'' []) = Inr 0
   \<and> generate_bid \<lparr>canvas_fails = False, today = ''2025-01-01''\<rparr> 2000 ''Interior Only''
        ''Low (minimal prep)'' 2 [] =
        [Error_hour_calculation (KeyError ''Low (minimal prep)''), Error_calculation_failed]"
proof -
  have m: "''Low (minimal prep)'' \<in> set prep_options" by (simp add: prep_options_def)
  have t: "TIME_ESTIMATES ''Interior Only'' = Some (map_of [(''Low'', 10), (''Medium'', 12), (''High'', 15)])"
    by (simp add: TIME_ESTIMATES_def)
  show ?thesis
    using m ui_prep_levels_always_fail[OF m, of "''Interior Only''" 2000 "[]"
        "\<lparr>canvas_fails = False, today = ''2025-01-01''\<rparr>" 2]
    by (simp add: t)
qed

text \<open>
  Claim C6. When \<open>scope\<close> is not a key of \<open>TIME_ESTIMATES\<close>, or \<open>prep_level\<close> is not a key
  of the row of \<open>scope\<close>, \<open>calculate_hours\<close> does not raise: it returns 0 and writes the
  hour-calculation error with the missing key. The button handler then writes
  "Calculation failed" and renders no bid.
\<close>

theorem missing_key_returns_zero:
  assumes "case TIME_ESTIMATES scope of None \<Rightarrow> True | Some row \<Rightarrow> row prep_level = None"
  shows "calculate_hours sq_ft scope prep_level ui =
           (Inr 0, ui @ [Error_hour_calculation
              (KeyError (case TIME_ESTIMATES scope of None \<Rightarrow> scope | Some row \<Rightarrow> prep_level))])
       \<and> generate_bid w sq_ft scope prep_level crew_size ui =
           snd (calculate_hours sq_ft scope prep_level ui) @ [Error_calculation_failed]"
  using calculate_hours_missing_key[OF assms, of sq_ft ui]
    generate_bid_zero_hours[OF calculate_hours_missing_key[OF assms, of sq_ft ui], of w crew_size]
  by simp

text \<open>The theorem at a scope that is not in the table.\<close>

theorem missing_key_returns_zero_witness:
  "(case TIME_ESTIMATES ''Garage'' of None \<Rightarrow> True | Some row \<Rightarrow> row ''Low'' = None)
   \<and> calculate_hours 2000 ''Garage'' ''Low'' [] =
       (Inr 0, [Error_hour_calculation (KeyError ''Garage'')])
   \<and> generate_bid \<lparr>canvas_fails = False, today = ''2025-01-01''\<rparr> 2000 ''Garage'' ''Low'' 2 [] =
       [Error_hour_calculation (KeyError ''Garage''), Error_calculation_failed]"
proof -
  have t: "TIME_ESTIMATES ''Garage'' = None" by (simp add: TIME_ESTIMATES_def)
  then have k: "case TIME_ESTIMATES ''Garage'' of None \<Rightarrow> True | Some row \<Rightarrow> row ''Low'' = None"
    by simp
  show ?thesis
    using k missing_key_returns_zero[OF k, of 2000 "[]"
        "\<lparr>canvas_fails = False, today = ''2025-01-01''\<rparr>" 2]
    by (simp add: t)
qed

section \<open>The figures of a bid\<close>

lemma calculate_hours_valid_key:
  assumes "TIME_ESTIMATES scope = Some row" and "row prep_level = Some base_hours_per_1000"
  shows "calculate_hours sq_ft scope prep_level ui =
           (Inr (py_round (py_mul (fl (of_int sq_ft / 1000)) (float_of_int base_hours_per_1000)) 1),
            ui)"
  using assms by (simp add: calculate_hours_def getitem_def int_truediv_def)

lemma calculate_costs_cases:
  assumes "calculate_costs sq_ft scope prep_level crew_size ui =
             ((total_hours, hours_per_painter, labor_cost, material_cost, total_cost), ui')"
  shows "calculate_hours sq_ft scope prep_level ui = (Inr total_hours, ui')"
proof -
  obtain h where "fst (calculate_hours sq_ft scope prep_level ui) = Inr h"
    using calculate_hours_returns by blast
  then obtain u where u: "calculate_hours sq_ft scope prep_level ui = (Inr h, u)"
    by (cases "calculate_hours sq_ft scope prep_level ui") simp
  from assms show ?thesis
    unfolding calculate_costs_unfold[OF u, of crew_size] using u by simp
qed

lemma default_costs:
  "calculate_costs 2000 ''Interior Only'' ''Low'' 2 [] = ((20, 10, 400, 120, 754), [])"
  by code_simp

lemma default_costs_no_crew:
  "calculate_costs 2000 ''Interior Only'' ''Low'' 0 [] = ((20, 20, 400, 120, 754), [])"
  by code_simp

lemma big_job_costs:
  "calculate_costs 4000 ''Both Interior and Exterior'' ''High'' 1 [] = ((140, 140, 2800, 280, 4466), [])"
  by code_simp

lemma float_of_int_consts:
  "float_of_int PAINTER_WAGE = 20" "float_of_int PAINT_COST_PER_GALLON = 40"
  "float_of_int SUPPLIES_COST_PER_1000_SQFT = 50"
  by code_simp+

text \<open>
  Claim C10. \<open>calculate_costs\<close> never divides by zero when \<open>crew_size \<ge> 0\<close> (inputs within
  the bounds of the float model): whatever it
  returns, it returns from the normal path, with the hours and the page that
  \<open>calculate_hours\<close> gave (no exception was caught, so no cost-calculation error was
  written). With \<open>crew_size = 0\<close> the guard makes \<open>hours_per_painter\<close> equal to
  \<open>total_hours\<close>; with \<open>crew_size \<ge> 1\<close> the division \<open>total_hours / crew_size\<close> is defined and
  \<open>hours_per_painter\<close> is its result.
\<close>

theorem crew_size_guard:
  assumes "0 \<le> crew_size" and "crew_size \<le> 10 ^ 300" and "\<bar>sq_ft\<bar> \<le> 10 ^ 300"
    and "calculate_costs sq_ft scope prep_level crew_size ui =
           ((total_hours, hours_per_painter, labor_cost, material_cost, total_cost), ui')"
  shows "calculate_hours sq_ft scope prep_level ui = (Inr total_hours, ui')
       \<and> (crew_size = 0 \<longrightarrow> hours_per_painter = total_hours)
       \<and> (1 \<le> crew_size \<longrightarrow>
            py_truediv total_hours (float_of_int crew_size) = Inr hours_per_painter)"
proof -
  note h = calculate_costs_cases[OF assms(4)]
  from assms(4) show ?thesis
    unfolding calculate_costs_unfold[OF h, of crew_size]
    using h by (auto simp: py_truediv_def)
qed

text \<open>The theorem with no painter and with two painters.\<close>

theorem crew_size_guard_witness:
  "(0::int) \<le> 0 \<and> (0::int) \<le> 10 ^ 300 \<and> \<bar>2000::int\<bar> \<le> 10 ^ 300
   \<and> calculate_costs 2000 ''Interior Only'' ''Low'' 0 [] = ((20, 20, 400, 120, 754), [])
   \<and> calculate_hours 2000 ''Interior Only'' ''Low'' [] = (Inr 20, [])
   \<and> (0::int) \<le> 2 \<and> (2::int) \<le> 10 ^ 300
   \<and> calculate_costs 2000 ''Interior Only'' ''Low'' 2 [] = ((20, 10, 400, 120, 754), [])
   \<and> py_truediv 20 (float_of_int 2) = Inr 10"
proof -
  have b: "(0::int) \<le> 0" "(0::int) \<le> 10 ^ 300" "\<bar>2000::int\<bar> \<le> 10 ^ 300"
    "(0::int) \<le> 2" "(2::int) \<le> 10 ^ 300"
    by simp_all
  show ?thesis
    using b crew_size_guard[OF b(1) b(2) b(3) default_costs_no_crew] default_costs_no_crew
      crew_size_guard[OF b(4) b(5) b(3) default_costs] default_costs
    by simp
qed

text \<open>
  Claim C8. The labor cost that \<open>calculate_costs\<close> returns is the total hours, as returned
  by \<open>calculate_hours\<close>, multiplied by the hourly wage of 20 (inputs within the bounds of
  the float model).
\<close>

theorem labor_cost_formula:
  assumes "\<bar>sq_ft\<bar> \<le> 10 ^ 300" and "crew_size \<le> 10 ^ 300"
    and "calculate_costs sq_ft scope prep_level crew_size ui =
           ((total_hours, hours_per_painter, labor_cost, material_cost, total_cost), ui')"
  shows "fst (calculate_hours sq_ft scope prep_level ui) = Inr total_hours
       \<and> labor_cost = py_mul total_hours (float_of_int PAINTER_WAGE)
       \<and> labor_cost = fl (total_hours * 20)"
proof -
  note h = calculate_costs_cases[OF assms(3)]
  from assms(3) show ?thesis
    unfolding calculate_costs_unfold[OF h, of crew_size]
    using h by (simp add: float_of_int_consts py_mul_def)
qed

text \<open>The theorem at the form's default square footage and crew.\<close>

theorem labor_cost_formula_witness:
  "\<bar>2000::int\<bar> \<le> 10 ^ 300 \<and> (2::int) \<le> 10 ^ 300
   \<and> calculate_costs 2000 ''Interior Only'' ''Low'' 2 [] = ((20, 10, 400, 120, 754), [])
   \<and> fst (calculate_hours 2000 ''Interior Only'' ''Low'' []) = Inr 20
   \<and> (400::rat) = fl (20 * 20)"
proof -
  have b: "\<bar>2000::int\<bar> \<le> 10 ^ 300" "(2::int) \<le> 10 ^ 300" by simp_all
  show ?thesis
    using b labor_cost_formula[OF b default_costs] default_costs by simp
qed

text \<open>
  Claim C7. The material cost is the paint cost plus the supplies cost:
  \<open>(paint_area / 100) * 0.025 * 40 + (sq_ft / 1000) * 50\<close>, evaluated left to right in
  floats, where \<open>paint_area\<close> is twice the square footage for the scope
  "Both Interior and Exterior" and the square footage otherwise (inputs within the
  bounds of the float model). Neither division can fail there.
\<close>

theorem material_cost_formula:
  assumes "\<bar>sq_ft\<bar> \<le> 10 ^ 300" and "crew_size \<le> 10 ^ 300"
    and "calculate_costs sq_ft scope prep_level crew_size ui =
           ((total_hours, hours_per_painter, labor_cost, material_cost, total_cost), ui')"
    and "paint_area = (if scope = ''Both Interior and Exterior'' then sq_ft * 2 else sq_ft)"
  shows "int_truediv paint_area 100 = Inr (fl (of_int paint_area / 100))
       \<and> int_truediv sq_ft 1000 = Inr (fl (of_int sq_ft / 1000))
       \<and> material_cost =
           py_add (py_mul (py_mul (fl (of_int paint_area / 100)) GALLONS_PER_100_SQFT)
                          (float_of_int PAINT_COST_PER_GALLON))
                  (py_mul (fl (of_int sq_ft / 1000)) (float_of_int SUPPLIES_COST_PER_1000_SQFT))
       \<and> material_cost =
           fl (fl (fl (fl (of_int paint_area / 100) * fl (25 / 1000)) * 40)
               + fl (fl (of_int sq_ft / 1000) * 50))"
proof -
  note h = calculate_costs_cases[OF assms(3)]
  from assms(3) show ?thesis
    unfolding calculate_costs_unfold[OF h, of crew_size] assms(4)
    by (simp add: float_of_int_consts py_mul_def py_add_def int_truediv_def
        GALLONS_PER_100_SQFT_def)
qed

text \<open>The theorem for the largest house, inside and outside.\<close>

theorem material_cost_formula_witness:
  "\<bar>4000::int\<bar> \<le> 10 ^ 300 \<and> (1::int) \<le> 10 ^ 300
   \<and> calculate_costs 4000 ''Both Interior and Exterior'' ''High'' 1 [] =
     ((140, 140, 2800, 280, 4466), [])
   \<and> (280::rat) = fl (fl (fl (fl (of_int (4000 * 2) / 100) * fl (25 / 1000)) * 40)
               + fl (fl (of_int 4000 / 1000) * 50))"
proof -
  have b: "\<bar>4000::int\<bar> \<le> 10 ^ 300" "(1::int) \<le> 10 ^ 300" by simp_all
  show ?thesis
    using b material_cost_formula[OF b big_job_costs refl] big_job_costs by simp
qed


lemma calculate_hours_frame:
  "calculate_hours sq_ft scope prep_level ui =
     (fst (calculate_hours sq_ft scope prep_level []),
      ui @ snd (calculate_hours sq_ft scope prep_level []))"
  by (simp add: calculate_hours_def int_truediv_def Let_def split: sum.splits)

lemma calculate_costs_frame:
  "calculate_costs sq_ft scope prep_level crew_size ui =
     (fst (calculate_costs sq_ft scope prep_level crew_size []),
      ui @ snd (calculate_costs sq_ft scope prep_level crew_size []))"
proof -
  obtain h u where u: "calculate_hours sq_ft scope prep_level [] = (Inr h, u)"
    using calculate_hours_returns[of sq_ft scope prep_level "[]"]
    by (cases "calculate_hours sq_ft scope prep_level []") auto
  then have u': "calculate_hours sq_ft scope prep_level ui = (Inr h, ui @ u)"
    using calculate_hours_frame[of sq_ft scope prep_level ui] by simp
  show ?thesis
    by (simp only: calculate_costs_unfold[OF u] calculate_costs_unfold[OF u'] fst_conv snd_conv)
qed

text \<open>
  Claim C1. For 2000 sq ft, "Interior Only", "Low" and a crew of 2 the calculation
  returns \<open>total_hours = 20.0\<close> and \<open>hours_per_painter = 10.0\<close> (and labor 400, material 120,
  total 754), and writes nothing.
\<close>

theorem default_example:
  "calculate_hours 2000 ''Interior Only'' ''Low'' ui = (Inr 20, ui)
   \<and> calculate_costs 2000 ''Interior Only'' ''Low'' 2 ui = ((20, 10, 400, 120, 754), ui)"
proof -
  have "calculate_hours 2000 ''Interior Only'' ''Low'' [] = (Inr 20, [])"
    by code_simp
  then show ?thesis
    using calculate_hours_frame[of 2000 "''Interior Only''" "''Low''" ui]
      calculate_costs_frame[of 2000 "''Interior Only''" "''Low''" 2 ui] default_costs
    by simp
qed

text \<open>
  Claim C5. After a calculation that returned nonzero hours, the button handler renders
  the bid summary if and only if \<open>hours_per_painter \<le> 50\<close> (\<open>MAX_WEEK_HOURS\<close>). Within
  the limit it writes the success line, the header and the five figures, then offers the
  document (or the PDF error if drawing failed). Over the limit it writes the one-week
  error and nothing else: no summary, no document.
\<close>

theorem week_limit_gate:
  assumes "calculate_costs sq_ft scope prep_level crew_size ui =
             ((total_hours, hours_per_painter, labor_cost, material_cost, total_cost), ui')"
    and "total_hours \<noteq> 0"
  shows "(Header_bid_summary \<in> set (drop (length ui') (generate_bid w sq_ft scope prep_level crew_size ui))
            \<longleftrightarrow> hours_per_painter \<le> 50)
       \<and> (hours_per_painter \<le> 50 \<longrightarrow>
            generate_bid w sq_ft scope prep_level crew_size ui =
              ui' @ [Success_one_week crew_size, Header_bid_summary,
                     Write_total_hours total_hours, Write_hours_per_painter hours_per_painter,
                     Write_labor_cost labor_cost 20, Write_material_cost material_cost,
                     Write_total_cost total_cost]
                  @ (if canvas_fails w then [Error_generating_pdf]
                     else [Download_button
                             \<lparr>doc_date = today w, doc_sq_ft = sq_ft, doc_scope = scope,
                              doc_prep_level = prep_level, doc_crew_size = crew_size,
                              doc_total_hours = total_hours, doc_labor_cost = labor_cost,
                              doc_material_cost = material_cost, doc_total_cost = total_cost\<rparr>]))
       \<and> (50 < hours_per_painter \<longrightarrow>
            generate_bid w sq_ft scope prep_level crew_size ui =
              ui' @ [Error_over_week_limit hours_per_painter 50])"
  using assms
  by (simp add: generate_bid_def generate_pdf_bid_def MAX_WEEK_HOURS_def PAINTER_WAGE_def Let_def)

text \<open>The theorem for a job over the limit and for one within it.\<close>

theorem week_limit_gate_witness:
  "calculate_costs 4000 ''Both Interior and Exterior'' ''High'' 1 [] =
     ((140, 140, 2800, 280, 4466), [])
   \<and> (140::rat) \<noteq> 0
   \<and> generate_bid \<lparr>canvas_fails = False, today = ''2025-01-01''\<rparr> 4000
        ''Both Interior and Exterior'' ''High'' 1 [] = [Error_over_week_limit 140 50]
   \<and> calculate_costs 2000 ''Interior Only'' ''Low'' 2 [] = ((20, 10, 400, 120, 754), [])
   \<and> (20::rat) \<noteq> 0
   \<and> Header_bid_summary \<in> set (generate_bid \<lparr>canvas_fails = False, today = ''2025-01-01''\<rparr> 2000
        ''Interior Only'' ''Low'' 2 [])"
  using week_limit_gate[OF big_job_costs, of "\<lparr>canvas_fails = False, today = ''2025-01-01''\<rparr>"]
    week_limit_gate[OF default_costs, of "\<lparr>canvas_fails = False, today = ''2025-01-01''\<rparr>"]
    big_job_costs default_costs
  by simp

section \<open>Markup and linearity under rounding\<close>

lemma MARKUP_PERCENT_value: "MARKUP_PERCENT = 8106479329266893 / 18014398509481984"
  by code_simp

lemma small_job_costs:
  "calculate_costs 1100 ''Interior Only'' ''Low'' 2 [] =
     ((11, 11 / 2, 220, 66, 1823869888154829 / 4398046511104), [])"
  by code_simp


lemma markup_product_value:
  "py_mul (py_add 220 66) (py_add 1 MARKUP_PERCENT) = 7295479552619315 / 17592186044416"
  by code_simp

text \<open>
  Claim C3 as stated: whenever the calculation succeeds,
  \<open>total_cost = (labor_cost + material_cost) * (1 + 0.45)\<close> exactly. It fails for 1100 sq ft,
  "Interior Only", "Low", crew 2: the code returns labor 220, material 66 and the total
  \<open>414.70000000000005\<close>, which is neither the float product \<open>286.0 * (1 + 0.45)\<close> nor the
  exact number \<open>414.7\<close>.
\<close>

theorem markup_exact_counterexample:
  "calculate_costs 1100 ''Interior Only'' ''Low'' 2 [] =
     ((11, 11 / 2, 220, 66, 1823869888154829 / 4398046511104), [])
   \<and> (1823869888154829 / 4398046511104 :: rat) \<noteq> py_mul (py_add 220 66) (py_add 1 MARKUP_PERCENT)
   \<and> (1823869888154829 / 4398046511104 :: rat) \<noteq> (220 + 66) * (1 + 45 / 100)"
  by (simp add: small_job_costs markup_product_value)

text \<open>
  Claim C3, amended. For inputs within the bounds of the float model (square footage at
  most \<open>10 ^ 300\<close> in magnitude, crew size at most \<open>10 ^ 300\<close>), the total is the subtotal
  plus the markup as the code computes them:
  \<open>subtotal + subtotal * 0.45\<close> with \<open>subtotal = labor_cost + material_cost\<close>, each of the
  three operations rounded to the nearest float. It exceeds the subtotal by the markup
  fraction 0.45 up to that rounding: it differs from \<open>(labor_cost + material_cost) * 1.45\<close>
  by at most the fraction \<open>1 / 2 ^ 51\<close> of the subtotal.
\<close>

theorem markup_rounded:
  assumes "\<bar>sq_ft\<bar> \<le> 10 ^ 300" and "crew_size \<le> 10 ^ 300"
    and "calculate_costs sq_ft scope prep_level crew_size ui =
           ((total_hours, hours_per_painter, labor_cost, material_cost, total_cost), ui')"
  shows "total_cost = py_add (py_add labor_cost material_cost)
                        (py_mul (py_add labor_cost material_cost) MARKUP_PERCENT)
       \<and> \<bar>total_cost - (labor_cost + material_cost) * (1 + 45 / 100)\<bar>
             \<le> \<bar>labor_cost + material_cost\<bar> / 2 ^ 51"
proof -
  note h = calculate_costs_cases[OF assms(3)]
  define s where "s = labor_cost + material_cost"
  define s' where "s' = fl s"
  define m where "m = fl (s' * (8106479329266893 / 18014398509481984))"
  have eq: "total_cost = py_add (py_add labor_cost material_cost)
                        (py_mul (py_add labor_cost material_cost) MARKUP_PERCENT)"
    using assms(3) unfolding calculate_costs_unfold[OF h, of crew_size] by (auto simp: Let_def)
  then have t: "total_cost = fl (s' + m)"
    by (simp add: py_add_def py_mul_def MARKUP_PERCENT_value s_def s'_def m_def)
  have 1: "\<bar>s' - s\<bar> \<le> \<bar>s\<bar> / 2 ^ 53" unfolding s'_def by (rule fl_error)
  have 2: "\<bar>m - s' * (8106479329266893 / 18014398509481984)\<bar>
          \<le> \<bar>s' * (8106479329266893 / 18014398509481984)\<bar> / 2 ^ 53"
    unfolding m_def by (rule fl_error)
  have 3: "\<bar>total_cost - (s' + m)\<bar> \<le> \<bar>s' + m\<bar> / 2 ^ 53"
    unfolding t by (rule fl_error)
  have "\<bar>total_cost - s * (1 + 45 / 100)\<bar> \<le> \<bar>s\<bar> / 2 ^ 51"
    using 1 2 3 by (rule markup_arith)
  then show ?thesis using eq by (simp add: s_def)
qed

text \<open>The amended statement at the input where the exact one fails.\<close>

theorem markup_rounded_witness:
  "\<bar>1100::int\<bar> \<le> 10 ^ 300 \<and> (2::int) \<le> 10 ^ 300
   \<and> calculate_costs 1100 ''Interior Only'' ''Low'' 2 [] =
     ((11, 11 / 2, 220, 66, 1823869888154829 / 4398046511104), [])
   \<and> (1823869888154829 / 4398046511104 :: rat) =
       py_add (py_add 220 66) (py_mul (py_add 220 66) MARKUP_PERCENT)
   \<and> \<bar>1823869888154829 / 4398046511104 - (220 + 66) * (1 + 45 / 100)\<bar>
       \<le> \<bar>220 + 66 :: rat\<bar> / 2 ^ 51"
proof -
  have b: "\<bar>1100::int\<bar> \<le> 10 ^ 300" "(2::int) \<le> 10 ^ 300" by simp_all
  show ?thesis
    using b small_job_costs markup_rounded[OF b small_job_costs] by simp
qed

lemma time_estimates_range:
  assumes "TIME_ESTIMATES scope = Some row" and "row prep_level = Some base"
  shows "10 \<le> base \<and> base \<le> 35"
  using assms by (auto simp: TIME_ESTIMATES_def split: if_splits)

lemma tenth_error:
  fixes n y :: rat
  assumes "\<bar>n - y * 10\<bar> \<le> 1 / 2"
  shows "\<bar>n / 10 - y\<bar> \<le> 1 / 20"
  using assms by linarith

lemma calculate_hours_near_linear:
  assumes "TIME_ESTIMATES scope = Some row" and "row prep_level = Some base"
    and "calculate_hours sq_ft scope prep_level ui = (Inr hours, ui')"
  shows "\<bar>hours - of_int sq_ft / 1000 * of_int base\<bar>
           \<le> 1 / 20 + (\<bar>of_int sq_ft / 1000 * of_int base\<bar> + 1) / 2 ^ 51"
proof -
  note b = time_estimates_range[OF assms(1,2)]
  then have fb: "float_of_int base = of_int base"
    unfolding float_of_int_def by (intro fl_of_int) simp
  have hb: "(0::rat) \<le> of_int base" using b by simp
  define z :: rat where "z = of_int sq_ft / 1000"
  define q where "q = fl z"
  define y where "y = fl (q * of_int base)"
  define r :: rat where "r = of_int (round_half_even (y * 10)) / 10"
  have hrs: "hours = fl r"
    using assms(3) unfolding calculate_hours_valid_key[OF assms(1,2)]
    by (simp add: fb py_mul_def py_round_def r_def y_def q_def z_def)
  have 1: "\<bar>q - z\<bar> \<le> \<bar>z\<bar> / 2 ^ 53" unfolding q_def by (rule fl_error)
  have 2: "\<bar>y - q * of_int base\<bar> \<le> \<bar>q * of_int base\<bar> / 2 ^ 53"
    unfolding y_def by (rule fl_error)
  have 3: "\<bar>r - y\<bar> \<le> 1 / 20"
    unfolding r_def by (rule tenth_error) (rule round_half_even_error)
  have 4: "\<bar>hours - r\<bar> \<le> \<bar>r\<bar> / 2 ^ 53" unfolding hrs by (rule fl_error)
  show ?thesis using hours_arith[OF 1 2 3 4 hb] by (simp add: z_def)
qed

lemma calculate_hours_one_decimal:
  assumes "TIME_ESTIMATES scope = Some row" and "row prep_level = Some base"
    and "calculate_hours sq_ft scope prep_level ui = (Inr hours, ui')"
  shows "\<exists>n::int. hours = fl (of_int n / 10)
           \<and> \<bar>of_int n / 10 - of_int sq_ft / 1000 * of_int base :: rat\<bar>
                \<le> 1 / 20 + \<bar>of_int sq_ft / 1000 * of_int base\<bar> / 2 ^ 51"
proof -
  note b = time_estimates_range[OF assms(1,2)]
  then have fb: "float_of_int base = of_int base"
    unfolding float_of_int_def by (intro fl_of_int) simp
  have hb: "(0::rat) \<le> of_int base" using b by simp
  define z :: rat where "z = of_int sq_ft / 1000"
  define q where "q = fl z"
  define y where "y = fl (q * of_int base)"
  define n where "n = round_half_even (y * 10)"
  have hrs: "hours = fl (of_int n / 10)"
    using assms(3) unfolding calculate_hours_valid_key[OF assms(1,2)]
    by (simp add: fb py_mul_def py_round_def n_def y_def q_def z_def)
  have 1: "\<bar>q - z\<bar> \<le> \<bar>z\<bar> / 2 ^ 53" unfolding q_def by (rule fl_error)
  have 2: "\<bar>y - q * of_int base\<bar> \<le> \<bar>q * of_int base\<bar> / 2 ^ 53"
    unfolding y_def by (rule fl_error)
  have 3: "\<bar>of_int n / 10 - y\<bar> \<le> 1 / 20"
    unfolding n_def by (rule tenth_error) (rule round_half_even_error)
  have 4: "\<bar>y - z * of_int base\<bar> \<le> \<bar>z * of_int base\<bar> / 2 ^ 51"
    using 1 2 hb by (rule product_error)
  have "\<bar>of_int n / 10 - z * of_int base\<bar> \<le> 1 / 20 + \<bar>z * of_int base\<bar> / 2 ^ 51"
    using 3 4 by linarith
  with hrs show ?thesis unfolding z_def by blast
qed

lemma calculate_hours_whole_thousands:
  assumes "TIME_ESTIMATES scope = Some row" and "row prep_level = Some base"
    and "\<bar>n\<bar> \<le> 10 ^ 12"
  shows "calculate_hours (1000 * n) scope prep_level ui = (Inr (of_int (n * base)), ui)"
proof -
  note b = time_estimates_range[OF assms(1,2)]
  then have fb: "float_of_int base = of_int base"
    unfolding float_of_int_def by (intro fl_of_int) simp
  have fn: "fl (of_int n) = of_int n" using assms(3) by (intro fl_of_int) simp
  have "\<bar>n * base\<bar> = \<bar>n\<bar> * base" using b by (simp add: abs_mult)
  also have "\<dots> \<le> 10 ^ 12 * 35" using assms(3) b by (intro mult_mono) simp_all
  finally have "\<bar>n * base\<bar> < 2 ^ 53" by simp
  then have fnb: "fl (of_int (n * base)) = of_int (n * base)" by (rule fl_of_int)
  have "round_half_even (of_int (n * base) * 10) = n * base * 10"
    using round_half_even_of_int[of "n * base * 10"] by simp
  then have "py_round (of_int (n * base)) 1 = of_int (n * base)"
    using fnb by (simp add: py_round_def)
  moreover have "py_mul (fl (of_int (1000 * n) / 1000)) (float_of_int base) = of_int (n * base)"
    using fn fb fnb by (simp add: py_mul_def)
  ultimately show ?thesis
    unfolding calculate_hours_valid_key[OF assms(1,2)] by simp
qed

lemma hours_1004: "calculate_hours 1004 ''Interior Only'' ''Low'' [] = (Inr 10, [])"
  by code_simp

lemma hours_2008:
  "calculate_hours 2008 ''Interior Only'' ''Low'' [] =
     (Inr (2828823515942093 / 140737488355328), [])"
  by code_simp

lemma hours_2000: "calculate_hours 2000 ''Interior Only'' ''Low'' [] = (Inr 20, [])"
  by code_simp

lemma hours_3000: "calculate_hours 3000 ''Interior Only'' ''Low'' [] = (Inr 30, [])"
  by code_simp

lemma doubled_hours: "py_mul 2 10 = 20" "py_round 20 1 = 20"
  by code_simp+

text \<open>
  Claim C4 as stated: for a valid (scope, prep level) and \<open>b = k * a\<close>,
  \<open>calculate_hours b = k * calculate_hours a\<close>. It fails for "Interior Only", "Low",
  \<open>a = 1004\<close>, \<open>k = 2\<close>: 1004 sq ft gives \<open>round(10.04, 1) = 10.0\<close> and 2008 sq ft gives
  \<open>round(20.08, 1) = 20.1\<close>, which is not \<open>2 * 10.0\<close>, whether the product is taken exactly,
  in floats, or rounded to one decimal again.
\<close>

theorem hours_exactly_linear_counterexample:
  "calculate_hours 1004 ''Interior Only'' ''Low'' [] = (Inr 10, [])
   \<and> calculate_hours 2008 ''Interior Only'' ''Low'' [] =
       (Inr (2828823515942093 / 140737488355328), [])
   \<and> (2008::int) = 2 * 1004
   \<and> (2828823515942093 / 140737488355328 :: rat) \<noteq> 2 * 10
   \<and> (2828823515942093 / 140737488355328 :: rat) \<noteq> py_mul 2 10
   \<and> (2828823515942093 / 140737488355328 :: rat) \<noteq> py_round (py_mul 2 10) 1"
  unfolding doubled_hours by (simp add: hours_1004 hours_2008)

text \<open>
  Claim C4, amended. For a valid (scope, prep level) with base hours \<open>base\<close> and square
  footages within the bounds of the float model (at most \<open>10 ^ 300\<close> in magnitude),
  \<open>calculate_hours\<close> is linear in the square footage up to the rounding to one decimal.
  The result is a number with one decimal, \<open>n / 10\<close> for an integer \<open>n\<close>, taken to the nearest
  float, and \<open>n / 10\<close> is within \<open>0.05\<close> (plus float rounding, \<open>x / 2 ^ 51\<close>) of the linear value
  \<open>x = sq_ft / 1000 * base\<close>; the result itself is within \<open>0.05 + (x + 1) / 2 ^ 51\<close> of \<open>x\<close>.
  Hence for \<open>b = k * a\<close> the hours for \<open>b\<close> and \<open>k\<close> times the hours for \<open>a\<close> differ by at most
  \<open>(1 + \<bar>k\<bar>) * 0.05\<close> plus float rounding, and they are equal when \<open>a\<close> and \<open>b\<close> are whole
  thousands (up to \<open>10 ^ 15\<close>).
\<close>

theorem hours_linear_up_to_rounding:
  assumes "TIME_ESTIMATES scope = Some row" and "row prep_level = Some base"
    and "calculate_hours a scope prep_level ui = (Inr hours_a, ui_a)"
    and "calculate_hours b scope prep_level ui = (Inr hours_b, ui_b)"
    and "of_int b = k * of_int a"
    and "\<bar>a\<bar> \<le> 10 ^ 300" and "\<bar>b\<bar> \<le> 10 ^ 300"
  shows "(\<exists>n::int. hours_a = fl (of_int n / 10)
            \<and> \<bar>of_int n / 10 - of_int a / 1000 * of_int base :: rat\<bar>
                 \<le> 1 / 20 + \<bar>of_int a / 1000 * of_int base\<bar> / 2 ^ 51)
       \<and> \<bar>hours_a - of_int a / 1000 * of_int base\<bar>
           \<le> 1 / 20 + (\<bar>of_int a / 1000 * of_int base\<bar> + 1) / 2 ^ 51
       \<and> \<bar>hours_b - k * hours_a\<bar>
           \<le> (1 + \<bar>k\<bar>) * (1 / 20 + 1 / 2 ^ 51) + \<bar>of_int b / 1000 * of_int base\<bar> / 2 ^ 50
       \<and> (1000 dvd a \<and> 1000 dvd b \<and> \<bar>a\<bar> \<le> 10 ^ 15 \<and> \<bar>b\<bar> \<le> 10 ^ 15
            \<longrightarrow> hours_b = k * hours_a)"
proof -
  define xa :: rat where "xa = of_int a / 1000 * of_int base"
  define xb :: rat where "xb = of_int b / 1000 * of_int base"
  have xb: "xb = k * xa" by (simp add: xa_def xb_def assms(5))
  have ea: "\<bar>hours_a - xa\<bar> \<le> 1 / 20 + (\<bar>xa\<bar> + 1) / 2 ^ 51"
    unfolding xa_def by (rule calculate_hours_near_linear[OF assms(1,2,3)])
  have eb: "\<bar>hours_b - xb\<bar> \<le> 1 / 20 + (\<bar>xb\<bar> + 1) / 2 ^ 51"
    unfolding xb_def by (rule calculate_hours_near_linear[OF assms(1,2,4)])
  have "\<bar>k * hours_a - xb\<bar> = \<bar>k\<bar> * \<bar>hours_a - xa\<bar>"
    by (simp add: xb abs_mult right_diff_distrib[symmetric])
  also have "\<dots> \<le> \<bar>k\<bar> * (1 / 20 + (\<bar>xa\<bar> + 1) / 2 ^ 51)"
    using ea by (intro mult_left_mono) simp_all
  also have "\<dots> = \<bar>k\<bar> * (1 / 20 + 1 / 2 ^ 51) + \<bar>xb\<bar> / 2 ^ 51"
    by (simp add: xb abs_mult algebra_simps add_divide_distrib)
  finally have ek: "\<bar>k * hours_a - xb\<bar> \<le> \<bar>k\<bar> * (1 / 20 + 1 / 2 ^ 51) + \<bar>xb\<bar> / 2 ^ 51" .
  have "\<bar>hours_b - k * hours_a\<bar> \<le> \<bar>hours_b - xb\<bar> + \<bar>k * hours_a - xb\<bar>" by linarith
  also have "\<dots> \<le> (1 / 20 + (\<bar>xb\<bar> + 1) / 2 ^ 51)
                  + (\<bar>k\<bar> * (1 / 20 + 1 / 2 ^ 51) + \<bar>xb\<bar> / 2 ^ 51)"
    using eb ek by linarith
  also have "\<dots> = (1 + \<bar>k\<bar>) * (1 / 20 + 1 / 2 ^ 51) + \<bar>xb\<bar> / 2 ^ 50"
    by (simp add: algebra_simps add_divide_distrib)
  finally have two: "\<bar>hours_b - k * hours_a\<bar>
      \<le> (1 + \<bar>k\<bar>) * (1 / 20 + 1 / 2 ^ 51) + \<bar>xb\<bar> / 2 ^ 50" .
  have exact: "hours_b = k * hours_a"
    if "1000 dvd a" "1000 dvd b" "\<bar>a\<bar> \<le> 10 ^ 15" "\<bar>b\<bar> \<le> 10 ^ 15"
  proof -
    from that(1) obtain na where na: "a = 1000 * na" by (rule dvdE)
    from that(2) obtain nb where nb: "b = 1000 * nb" by (rule dvdE)
    note n = na nb
    with that have "\<bar>na\<bar> \<le> 10 ^ 12" "\<bar>nb\<bar> \<le> 10 ^ 12" by simp_all
    then have "hours_a = of_int (na * base)" "hours_b = of_int (nb * base)"
      using calculate_hours_whole_thousands[OF assms(1,2), of na ui]
        calculate_hours_whole_thousands[OF assms(1,2), of nb ui] assms(3,4) n by simp_all
    moreover have "(of_int nb :: rat) = k * of_int na" using assms(5) n by simp
    ultimately show ?thesis by simp
  qed
  note one = calculate_hours_one_decimal[OF assms(1,2,3)]
  show ?thesis using one ea two exact unfolding xa_def xb_def by blast
qed


text \<open>The amended statement at the input where the exact one fails.\<close>

theorem hours_linear_up_to_rounding_witness:
  "TIME_ESTIMATES ''Interior Only'' = Some (map_of [(''Low'', 10), (''Medium'', 12), (''High'', 15)])
   \<and> map_of [(''Low'', 10), (''Medium'', 12), (''High'', 15 :: int)] ''Low'' = Some 10
   \<and> calculate_hours 1004 ''Interior Only'' ''Low'' [] = (Inr 10, [])
   \<and> calculate_hours 2008 ''Interior Only'' ''Low'' [] =
       (Inr (2828823515942093 / 140737488355328), [])
   \<and> (of_int 2008 :: rat) = 2 * of_int 1004
   \<and> \<bar>1004::int\<bar> \<le> 10 ^ 300 \<and> \<bar>2008::int\<bar> \<le> 10 ^ 300
   \<and> \<bar>2000::int\<bar> \<le> 10 ^ 300 \<and> \<bar>3000::int\<bar> \<le> 10 ^ 300
   \<and> \<bar>2828823515942093 / 140737488355328 - 2 * 10\<bar>
       \<le> (1 + \<bar>2\<bar>) * (1 / 20 + 1 / 2 ^ 51) + \<bar>of_int 2008 / 1000 * of_int 10 :: rat\<bar> / 2 ^ 50
   \<and> calculate_hours 2000 ''Interior Only'' ''Low'' [] = (Inr 20, [])
   \<and> calculate_hours 3000 ''Interior Only'' ''Low'' [] = (Inr 30, [])
   \<and> (of_int 3000 :: rat) = 3 / 2 * of_int 2000
   \<and> (1000::int) dvd 2000 \<and> (1000::int) dvd 3000
   \<and> (30::rat) = 3 / 2 * 20"
proof -
  have t: "TIME_ESTIMATES ''Interior Only'' =
             Some (map_of [(''Low'', 10), (''Medium'', 12), (''High'', 15)])"
    by (simp add: TIME_ESTIMATES_def)
  have r: "map_of [(''Low'', 10), (''Medium'', 12), (''High'', 15 :: int)] ''Low'' = Some 10"
    by simp
  have k: "(of_int 2008 :: rat) = 2 * of_int 1004" by simp
  have k': "(of_int 3000 :: rat) = 3 / 2 * of_int 2000" by simp
  have d: "(1000::int) dvd 2000" "(1000::int) dvd 3000" by simp_all
  have m: "\<bar>1004::int\<bar> \<le> 10 ^ 300" "\<bar>2008::int\<bar> \<le> 10 ^ 300"
    "\<bar>2000::int\<bar> \<le> 10 ^ 300" "\<bar>3000::int\<bar> \<le> 10 ^ 300"
    by simp_all
  from hours_linear_up_to_rounding[OF t r hours_1004 hours_2008 k m(1,2)]
  have near: "\<bar>2828823515942093 / 140737488355328 - 2 * 10\<bar>
       \<le> (1 + \<bar>2\<bar>) * (1 / 20 + 1 / 2 ^ 51) + \<bar>of_int 2008 / 1000 * of_int 10 :: rat\<bar> / 2 ^ 50"
    by (rule conjunct2[THEN conjunct2, THEN conjunct1])
  from hours_linear_up_to_rounding[OF t r hours_2000 hours_3000 k' m(3,4)] d
  have exact: "(30::rat) = 3 / 2 * 20" by simp
  from t r k k' d m near exact hours_1004 hours_2008 hours_2000 hours_3000
  show ?thesis by (intro conjI)
qed

section \<open>Repeated runs\<close>

lemma st_error_globals: "globals (snd (st_error ev w)) = globals w"
  by (simp add: st_error_def split: list.splits)

lemma st_error_congruent:
  assumes "st_error_raises w = st_error_raises w'"
  shows "fst (st_error ev w) = fst (st_error ev w')"
    and "st_error_raises (snd (st_error ev w)) = st_error_raises (snd (st_error ev w'))"
  using assms by (simp_all add: st_error_def split: list.splits)

lemma calculate_hours_in_globals:
  "globals (snd (calculate_hours_in sq_ft scope prep_level w)) = globals w"
  by (auto simp: calculate_hours_in_def st_error_def Let_def
      split: sum.splits prod.splits list.splits if_splits)

lemma calculate_hours_in_congruent:
  assumes "globals w = globals w'" and "st_error_raises w = st_error_raises w'"
  shows "fst (calculate_hours_in sq_ft scope prep_level w) =
         fst (calculate_hours_in sq_ft scope prep_level w')"
    and "st_error_raises (snd (calculate_hours_in sq_ft scope prep_level w)) =
         st_error_raises (snd (calculate_hours_in sq_ft scope prep_level w'))"
  using assms
  by (auto simp: calculate_hours_in_def st_error_def Let_def
      split: sum.splits prod.splits list.splits if_splits)

lemma except_cost_globals: "globals (snd (except_cost e w)) = globals w"
  by (auto simp: except_cost_def st_error_def split: prod.splits list.splits if_splits)

lemma except_cost_congruent:
  assumes "st_error_raises w = st_error_raises w'"
  shows "fst (except_cost e w) = fst (except_cost e w')"
  using assms
  by (auto simp: except_cost_def st_error_def split: prod.splits list.splits if_splits)

lemma calculate_costs_in_globals:
  "globals (snd (calculate_costs_in sq_ft scope prep_level crew_size w)) = globals w"
proof -
  obtain r w1 where h: "calculate_hours_in sq_ft scope prep_level w = (r, w1)"
    by (cases "calculate_hours_in sq_ft scope prep_level w")
  then have g: "globals w1 = globals w"
    using calculate_hours_in_globals[of sq_ft scope prep_level w] by simp
  show ?thesis
    unfolding calculate_costs_in_def h
    by (simp add: g except_cost_globals Let_def split: sum.splits)
qed

lemma calculate_costs_in_congruent:
  assumes "globals w = globals w'" and "st_error_raises w = st_error_raises w'"
  shows "fst (calculate_costs_in sq_ft scope prep_level crew_size w) =
         fst (calculate_costs_in sq_ft scope prep_level crew_size w')"
proof -
  obtain r w1 where h: "calculate_hours_in sq_ft scope prep_level w = (r, w1)"
    by (cases "calculate_hours_in sq_ft scope prep_level w")
  obtain r' w1' where h': "calculate_hours_in sq_ft scope prep_level w' = (r', w1')"
    by (cases "calculate_hours_in sq_ft scope prep_level w'")
  have r: "r' = r"
    using calculate_hours_in_congruent(1)[OF assms, of sq_ft scope prep_level] h h' by simp
  have s: "st_error_raises w1 = st_error_raises w1'"
    using calculate_hours_in_congruent(2)[OF assms, of sq_ft scope prep_level] h h' by simp
  have g: "globals w1 = globals w1'"
    using calculate_hours_in_globals[of sq_ft scope prep_level w]
      calculate_hours_in_globals[of sq_ft scope prep_level w'] h h' assms(1) by simp
  show ?thesis
    unfolding calculate_costs_in_def h h' r
    by (simp add: g except_cost_congruent[OF s] Let_def split: sum.splits)
qed


lemma calculate_hours_in_module:
  assumes "globals w = module_init" and "st_error_raises w = []"
  shows "calculate_hours_in sq_ft scope prep_level w =
           (fst (calculate_hours sq_ft scope prep_level (page w)),
            w\<lparr>page := snd (calculate_hours sq_ft scope prep_level (page w))\<rparr>)"
  using assms
  by (simp add: calculate_hours_in_def calculate_hours_def st_error_def module_init_def Let_def
      split: sum.splits)

lemma calculate_costs_in_module:
  assumes "globals w = module_init" and "st_error_raises w = []"
  shows "calculate_costs_in sq_ft scope prep_level crew_size w =
           (Inr (fst (calculate_costs sq_ft scope prep_level crew_size (page w))),
            w\<lparr>page := snd (calculate_costs sq_ft scope prep_level crew_size (page w))\<rparr>)"
proof -
  obtain h u where u: "calculate_hours sq_ft scope prep_level (page w) = (Inr h, u)"
    using calculate_hours_returns[of sq_ft scope prep_level "page w"]
    by (cases "calculate_hours sq_ft scope prep_level (page w)") auto
  have hw: "calculate_hours_in sq_ft scope prep_level w = (Inr h, w\<lparr>page := u\<rparr>)"
    using calculate_hours_in_module[OF assms, of sq_ft scope prep_level] u by simp
  show ?thesis
    unfolding calculate_costs_in_def hw calculate_costs_unfold[OF u]
    using assms(1)
    by (simp add: module_init_def py_truediv_def int_truediv_def Let_def)
qed

lemma calculate_hours_in_valid_key:
  assumes "G_TIME_ESTIMATES (globals w) scope = Some row"
    and "row prep_level = Some base_hours_per_1000"
  shows "calculate_hours_in sq_ft scope prep_level w =
           (Inr (py_round (py_mul (fl (of_int sq_ft / 1000)) (float_of_int base_hours_per_1000)) 1),
            w)"
  using assms by (simp add: calculate_hours_in_def getitem_def int_truediv_def)

lemma calculate_costs_in_unfold:
  assumes "calculate_hours_in sq_ft scope prep_level w = (Inr total_hours, w1)"
  shows "calculate_costs_in sq_ft scope prep_level crew_size w =
           (Inr (total_hours,
             (if crew_size > 0 then fl (total_hours / float_of_int crew_size) else total_hours),
             py_mul total_hours (float_of_int (G_PAINTER_WAGE (globals w1))),
             py_add
               (py_mul (py_mul (fl (of_int (if scope = ''Both Interior and Exterior''
                                            then sq_ft * 2 else sq_ft) / 100))
                               (G_GALLONS_PER_100_SQFT (globals w1)))
                       (float_of_int (G_PAINT_COST_PER_GALLON (globals w1))))
               (py_mul (fl (of_int sq_ft / 1000))
                       (float_of_int (G_SUPPLIES_COST_PER_1000_SQFT (globals w1)))),
             (let subtotal =
                    py_add (py_mul total_hours (float_of_int (G_PAINTER_WAGE (globals w1))))
                      (py_add
                         (py_mul (py_mul (fl (of_int (if scope = ''Both Interior and Exterior''
                                                      then sq_ft * 2 else sq_ft) / 100))
                                         (G_GALLONS_PER_100_SQFT (globals w1)))
                                 (float_of_int (G_PAINT_COST_PER_GALLON (globals w1))))
                         (py_mul (fl (of_int sq_ft / 1000))
                                 (float_of_int (G_SUPPLIES_COST_PER_1000_SQFT (globals w1)))))
              in py_add subtotal (py_mul subtotal (G_MARKUP_PERCENT (globals w1))))),
            w1)"
  using assms by (simp add: calculate_costs_in_def py_truediv_def int_truediv_def Let_def)

text \<open>
  Both conditions matter: with another wage bound to the global, or with \<open>st.error\<close>
  raising, the same arguments give another result.
\<close>

lemma wage_25_figures:
  "py_mul 20 (float_of_int 25) = 500"
  "py_add (py_add 500 120) (py_mul (py_add 500 120) MARKUP_PERCENT) = 899"
  by code_simp+

lemma rebound_wage_changes_costs:
  "fst (calculate_costs_in 2000 ''Interior Only'' ''Low'' 2
          \<lparr>globals = module_init\<lparr>G_PAINTER_WAGE := 25\<rparr>, page = [], st_error_raises = []\<rparr>)
     = Inr (20, 10, 500, 120, 899)"
proof -
  let ?w = "\<lparr>globals = module_init\<lparr>G_PAINTER_WAGE := 25\<rparr>, page = [], st_error_raises = []\<rparr>"
  have t: "TIME_ESTIMATES ''Interior Only'' =
             Some (map_of [(''Low'', 10), (''Medium'', 12), (''High'', 15)])"
    by (simp add: TIME_ESTIMATES_def)
  have r: "map_of [(''Low'', 10), (''Medium'', 12), (''High'', 15 :: int)] ''Low'' = Some 10"
    by simp
  note h0 = hours_2000
  from h0 have v: "py_round (py_mul (fl (of_int 2000 / 1000)) (float_of_int 10)) 1 = 20"
    unfolding calculate_hours_valid_key[OF t r] by simp
  have t': "G_TIME_ESTIMATES (globals ?w) ''Interior Only'' =
             Some (map_of [(''Low'', 10), (''Medium'', 12), (''High'', 15)])"
    by (simp add: module_init_def t)
  have h: "calculate_hours_in 2000 ''Interior Only'' ''Low'' ?w = (Inr 20, ?w)"
    unfolding calculate_hours_in_valid_key[OF t' r] v by simp
  have d: "calculate_costs 2000 ''Interior Only'' ''Low'' 2 [] = ((20, 10, 400, 120, 754), [])"
    by (rule default_costs)
  note u = d[unfolded calculate_costs_unfold[OF h0, of 2]]
  from u have hpp: "fl (20 / float_of_int 2) = 10" by simp
  from u have mat: "py_add
               (py_mul (py_mul (fl (of_int 2000 / 100)) GALLONS_PER_100_SQFT)
                       (float_of_int PAINT_COST_PER_GALLON))
               (py_mul (fl (of_int 2000 / 1000)) (float_of_int SUPPLIES_COST_PER_1000_SQFT)) = 120"
    by simp
  show ?thesis
    unfolding calculate_costs_in_unfold[OF h, of 2]
    using hpp mat by (simp add: module_init_def wage_25_figures)
qed

lemma keyerror_costs:
  "calculate_costs 2000 ''Interior Only'' ''Low (minimal prep)'' 2 [] =
     ((0, 0, 0, 120, 174), [Error_hour_calculation (KeyError ''Low (minimal prep)'')])"
  by code_simp

lemma failing_st_error_changes_costs:
  "fst (calculate_costs_in 2000 ''Interior Only'' ''Low (minimal prep)'' 2
          \<lparr>globals = module_init, page = [], st_error_raises = []\<rparr>)
     = Inr (0, 0, 0, 120, 174)"
  "fst (calculate_costs_in 2000 ''Interior Only'' ''Low (minimal prep)'' 2
          \<lparr>globals = module_init, page = [], st_error_raises = [True]\<rparr>)
     = Inr (0, 0, 0, 0, 0)"
  "fst (calculate_costs_in 2000 ''Interior Only'' ''Low (minimal prep)'' 2
          \<lparr>globals = module_init, page = [], st_error_raises = [True, True]\<rparr>)
     = Inl StreamlitAPIException"
proof -
  show "fst (calculate_costs_in 2000 ''Interior Only'' ''Low (minimal prep)'' 2
          \<lparr>globals = module_init, page = [], st_error_raises = []\<rparr>)
     = Inr (0, 0, 0, 120, 174)"
    by (simp add: calculate_costs_in_module keyerror_costs)
  show "fst (calculate_costs_in 2000 ''Interior Only'' ''Low (minimal prep)'' 2
          \<lparr>globals = module_init, page = [], st_error_raises = [True]\<rparr>)
     = Inr (0, 0, 0, 0, 0)"
    by (simp add: calculate_costs_in_def calculate_hours_in_def except_cost_def st_error_def
        getitem_def module_init_def TIME_ESTIMATES_def)
  show "fst (calculate_costs_in 2000 ''Interior Only'' ''Low (minimal prep)'' 2
          \<lparr>globals = module_init, page = [], st_error_raises = [True, True]\<rparr>)
     = Inl StreamlitAPIException"
    by (simp add: calculate_costs_in_def calculate_hours_in_def except_cost_def st_error_def
        getitem_def module_init_def TIME_ESTIMATES_def)
qed

text \<open>
  Claim C9. \<open>calculate_costs\<close> is deterministic. What a run returns (the tuple, or the
  exception of a failing \<open>st.error\<close>) is determined by the four arguments, the module's
  globals and the behaviour of \<open>st.error\<close>: two runs that agree on these return the same,
  whatever is on the page. A run never rebinds a global. So in the program as it runs
  (the globals as the module binds them, \<open>st.error\<close> returning normally) every run returns
  the tuple of \<open>calculate_costs\<close> for its arguments, and a second run after the first
  returns the same tuple again.
\<close>

theorem calculate_costs_deterministic:
  assumes "globals w1 = globals w2" and "st_error_raises w1 = st_error_raises w2"
  shows "fst (calculate_costs_in sq_ft scope prep_level crew_size w1) =
         fst (calculate_costs_in sq_ft scope prep_level crew_size w2)
       \<and> globals (snd (calculate_costs_in sq_ft scope prep_level crew_size w1)) = globals w1
       \<and> (globals w1 = module_init \<and> st_error_raises w1 = [] \<longrightarrow>
            fst (calculate_costs_in sq_ft scope prep_level crew_size w1) =
              Inr (fst (calculate_costs sq_ft scope prep_level crew_size (page w1)))
            \<and> fst (calculate_costs_in sq_ft scope prep_level crew_size
                     (snd (calculate_costs_in sq_ft scope prep_level crew_size w1))) =
              fst (calculate_costs_in sq_ft scope prep_level crew_size w1))"
proof -
  have again: "fst (calculate_costs_in sq_ft scope prep_level crew_size
                     (snd (calculate_costs_in sq_ft scope prep_level crew_size w1))) =
               fst (calculate_costs_in sq_ft scope prep_level crew_size w1)"
    if m: "globals w1 = module_init" "st_error_raises w1 = []"
  proof (rule calculate_costs_in_congruent)
    show "globals (snd (calculate_costs_in sq_ft scope prep_level crew_size w1)) = globals w1"
      by (rule calculate_costs_in_globals)
    show "st_error_raises (snd (calculate_costs_in sq_ft scope prep_level crew_size w1)) =
          st_error_raises w1"
      by (simp add: calculate_costs_in_module[OF m] m(2))
  qed
  show ?thesis
    using calculate_costs_in_congruent[OF assms, of sq_ft scope prep_level crew_size]
      calculate_costs_in_globals[of sq_ft scope prep_level crew_size w1]
      calculate_costs_in_module[of w1 sq_ft scope prep_level crew_size] again
    by simp
qed

text \<open>Two runs for the default form values, started on different pages.\<close>

theorem calculate_costs_deterministic_witness:
  "globals \<lparr>globals = module_init, page = [], st_error_raises = []\<rparr> =
     globals \<lparr>globals = module_init, page = [Error_calculation_failed], st_error_raises = []\<rparr>
   \<and> st_error_raises \<lparr>globals = module_init, page = [], st_error_raises = []\<rparr> =
     st_error_raises
       \<lparr>globals = module_init, page = [Error_calculation_failed], st_error_raises = []\<rparr>
   \<and> fst (calculate_costs_in 2000 ''Interior Only'' ''Low'' 2
            \<lparr>globals = module_init, page = [], st_error_raises = []\<rparr>) =
     fst (calculate_costs_in 2000 ''Interior Only'' ''Low'' 2
            \<lparr>globals = module_init, page = [Error_calculation_failed], st_error_raises = []\<rparr>)
   \<and> fst (calculate_costs_in 2000 ''Interior Only'' ''Low'' 2
            \<lparr>globals = module_init, page = [], st_error_raises = []\<rparr>) =
     Inr (20, 10, 400, 120, 754)"
proof -
  let ?w1 = "\<lparr>globals = module_init, page = [], st_error_raises = []\<rparr>"
  let ?w2 = "\<lparr>globals = module_init, page = [Error_calculation_failed], st_error_raises = []\<rparr>"
  have g: "globals ?w1 = globals ?w2" by simp
  have s: "st_error_raises ?w1 = st_error_raises ?w2" by simp
  note d = calculate_costs_deterministic[OF g s, of 2000 "''Interior Only''" "''Low''" 2]
  from d have a: "fst (calculate_costs_in 2000 ''Interior Only'' ''Low'' 2 ?w1) =
                  fst (calculate_costs_in 2000 ''Interior Only'' ''Low'' 2 ?w2)"
    by (rule conjunct1)
  have m: "globals ?w1 = module_init \<and> st_error_raises ?w1 = []" by simp
  from d m have "fst (calculate_costs_in 2000 ''Interior Only'' ''Low'' 2 ?w1) =
                 Inr (fst (calculate_costs 2000 ''Interior Only'' ''Low'' 2 (page ?w1)))"
    by blast
  then have b: "fst (calculate_costs_in 2000 ''Interior Only'' ''Low'' 2 ?w1) =
                Inr (20, 10, 400, 120, 754)"
    by (simp add: default_costs)
  from g s a b show ?thesis by (intro conjI)
qed

end
